theory Spec2Isabelle
  imports Complex_Main
begin

section \<open>Values, exceptions and library functions\<close>

text \<open>
  Python floats are modelled as exact reals: rounding, overflow to \<open>inf\<close> and \<open>nan\<close> are
  not represented. An exception raised inside a service method is a value of
  \<open>py_error\<close>; the services catch every exception at their outer \<^verbatim>\<open>except Exception\<close>
  and turn it into an error response.
\<close>

datatype py_error = IndexError | ValueError | TypeError | AttributeError

text \<open>The floor \<^verbatim>\<open>1e-6\<close> used for the noise scales and for the arguments of \<^verbatim>\<open>np.log\<close>.\<close>

definition eps :: real where
  "eps = 1 / 10 ^ 6"

section \<open>The Extended Kalman Filter of \<^verbatim>\<open>update_state\<close>\<close>

text \<open>
  \<^verbatim>\<open>params\<close> is the optimiser's vector \<^verbatim>\<open>[alpha_r, alpha_phi, sigma_r, sigma_phi, sigma_lab]\<close>;
  it always has five entries (the initial guess and the bounds have five), so it is a
  5-tuple here and the unpacking in the first line of the filter cannot fail.
\<close>

type_synonym params = "real \<times> real \<times> real \<times> real \<times> real"

text \<open>The loop variables of \<^verbatim>\<open>extended_kalman_filter\<close>.\<close>

record ekf_state =
  eta_r :: real
  eta_phi :: real
  P_r :: real
  P_phi :: real
  log_likelihood :: real

text \<open>One iteration of the \<^verbatim>\<open>for i in range(n)\<close> loop, for the observation \<open>y = y_lab[i]\<close>.\<close>

definition ekf_step ::
  "real \<Rightarrow> real \<Rightarrow> real \<Rightarrow> real \<Rightarrow> real \<Rightarrow> ekf_state \<Rightarrow> real \<Rightarrow> ekf_state" where
  "ekf_step alpha_r alpha_phi sigma_r sigma_phi sigma_lab s y =
     (let eta_r_pred = eta_r s + alpha_r;
          eta_phi_pred = eta_phi s + alpha_phi;
          P_r_pred = P_r s + sigma_r ^ 2;
          P_phi_pred = P_phi s + sigma_phi ^ 2;
          h = exp eta_r_pred;
          H = h;
          y_pred = h;
          innovation = y - y_pred;
          S = H ^ 2 * P_r_pred + sigma_lab ^ 2;
          K = (H * P_r_pred) / S
      in \<lparr> eta_r = eta_r_pred + K * innovation,
           eta_phi = eta_phi_pred,
           P_r = (1 - K * H) * P_r_pred,
           P_phi = P_phi_pred,
           log_likelihood =
             log_likelihood s + - 0.5 * (ln (2 * pi * S) + (innovation ^ 2) / S) \<rparr>)"

text \<open>
  The loop over the indices \<open>range(n)\<close>. \<^verbatim>\<open>y_lab[i]\<close> on a numpy array raises IndexError
  when \<open>i\<close> is out of range.
\<close>

fun ekf_loop ::
  "real \<Rightarrow> real \<Rightarrow> real \<Rightarrow> real \<Rightarrow> real \<Rightarrow> real list \<Rightarrow> nat list \<Rightarrow> ekf_state
     \<Rightarrow> py_error + ekf_state" where
  "ekf_loop alpha_r alpha_phi sigma_r sigma_phi sigma_lab y_lab [] s = Inr s"
| "ekf_loop alpha_r alpha_phi sigma_r sigma_phi sigma_lab y_lab (i # rest) s =
     (if i < length y_lab
      then ekf_loop alpha_r alpha_phi sigma_r sigma_phi sigma_lab y_lab rest
             (ekf_step alpha_r alpha_phi sigma_r sigma_phi sigma_lab s (y_lab ! i))
      else Inl IndexError)"

text \<open>
  The filter returns the negative log-likelihood alone, or together with the final state
  when \<^verbatim>\<open>return_final_state\<close> is set. The argument \<^verbatim>\<open>times\<close> is called \<open>time_points\<close>
  here; only its length is used.
\<close>

datatype ekf_return =
    NegLL real
  | FinalState real real real real real

definition extended_kalman_filter ::
  "params \<Rightarrow> real list \<Rightarrow> real list \<Rightarrow> real \<Rightarrow> real \<Rightarrow> real \<Rightarrow> real \<Rightarrow> bool
     \<Rightarrow> py_error + ekf_return" where
  "extended_kalman_filter params time_points y_lab eta_r0_mean eta_r0_var eta_phi0_mean eta_phi0_var
       return_final_state =
     (case params of (alpha_r, alpha_phi, sigma_r0, sigma_phi0, sigma_lab0) \<Rightarrow>
        let sigma_r = max sigma_r0 eps;
            sigma_phi = max sigma_phi0 eps;
            sigma_lab = max sigma_lab0 eps;
            n = length time_points;
            init = \<lparr> eta_r = eta_r0_mean, eta_phi = eta_phi0_mean,
                     P_r = eta_r0_var, P_phi = eta_phi0_var, log_likelihood = 0 \<rparr>
        in (case ekf_loop alpha_r alpha_phi sigma_r sigma_phi sigma_lab y_lab [0..<n] init of
              Inl e \<Rightarrow> Inl e
            | Inr s \<Rightarrow>
                if return_final_state
                then Inr (FinalState (- log_likelihood s) (eta_r s) (eta_phi s) (P_r s) (P_phi s))
                else Inr (NegLL (- log_likelihood s))))"

subsection \<open>The forward pass in the words of the specification\<close>

text \<open>
  The belief after \<open>k\<close> observations, by the equations of the specification: predict,
  linearise at the predicted mean, innovation, innovation covariance, gain, correct.
  The three noise scales are floored at \<open>1e-6\<close>.
\<close>

record spec_belief =
  b_eta_r :: real
  b_P_r :: real
  b_eta_phi :: real
  b_P_phi :: real

definition spec_innovation_cov :: "params \<Rightarrow> spec_belief \<Rightarrow> real" where
  "spec_innovation_cov p b =
     (case p of (alpha_r, alpha_phi, sigma_r, sigma_phi, sigma_obs) \<Rightarrow>
        let eta_r_pred = b_eta_r b + alpha_r;
            P_r_pred = b_P_r b + (max sigma_r eps) ^ 2;
            H = exp eta_r_pred
        in H ^ 2 * P_r_pred + (max sigma_obs eps) ^ 2)"

definition spec_innovation :: "params \<Rightarrow> spec_belief \<Rightarrow> real \<Rightarrow> real" where
  "spec_innovation p b y_obs =
     (case p of (alpha_r, alpha_phi, sigma_r, sigma_phi, sigma_obs) \<Rightarrow>
        y_obs - exp (b_eta_r b + alpha_r))"

definition spec_update :: "params \<Rightarrow> spec_belief \<Rightarrow> real \<Rightarrow> spec_belief" where
  "spec_update p b y_obs =
     (case p of (alpha_r, alpha_phi, sigma_r, sigma_phi, sigma_obs) \<Rightarrow>
        let eta_r_pred = b_eta_r b + alpha_r;
            P_r_pred = b_P_r b + (max sigma_r eps) ^ 2;
            H = exp eta_r_pred;
            v = spec_innovation p b y_obs;
            S = spec_innovation_cov p b;
            K = H * P_r_pred / S
        in \<lparr> b_eta_r = eta_r_pred + K * v,
             b_P_r = (1 - K * H) * P_r_pred,
             b_eta_phi = b_eta_phi b + alpha_phi,
             b_P_phi = b_P_phi b + (max sigma_phi eps) ^ 2 \<rparr>)"

text \<open>The belief held in the loop variables of the filter.\<close>

definition belief_of :: "ekf_state \<Rightarrow> spec_belief" where
  "belief_of s = \<lparr> b_eta_r = eta_r s, b_P_r = P_r s, b_eta_phi = eta_phi s, b_P_phi = P_phi s \<rparr>"

text \<open>The part of the loop variables that the r channel and the likelihood use.\<close>

definition r_channel :: "ekf_state \<Rightarrow> real \<times> real \<times> real" where
  "r_channel s = (eta_r s, P_r s, log_likelihood s)"

primrec spec_forward :: "params \<Rightarrow> real list \<Rightarrow> spec_belief \<Rightarrow> nat \<Rightarrow> spec_belief" where
  "spec_forward p y b0 0 = b0"
| "spec_forward p y b0 (Suc k) = spec_update p (spec_forward p y b0 k) (y ! k)"

definition spec_contribution :: "params \<Rightarrow> real list \<Rightarrow> spec_belief \<Rightarrow> nat \<Rightarrow> real" where
  "spec_contribution p y b0 k =
     (let b = spec_forward p y b0 k;
          S = spec_innovation_cov p b;
          v = spec_innovation p b (y ! k)
      in - 0.5 * (ln (2 * pi * S) + v ^ 2 / S))"

section \<open>numpy and scipy functions used by the services\<close>

text \<open>
  The library functions are modelled by their documented meaning on reals.
  \<^verbatim>\<open>np.mean\<close> and \<^verbatim>\<open>np.std\<close> (population standard deviation, \<open>ddof = 0\<close>) return \<open>nan\<close>
  on an empty array; the services only use their value on non-empty arrays.
\<close>

definition np_mean :: "real list \<Rightarrow> real" where
  "np_mean xs = sum_list xs / real (length xs)"

definition np_std :: "real list \<Rightarrow> real" where
  "np_std xs = sqrt (np_mean (map (\<lambda>v. \<bar>v - np_mean xs\<bar> ^ 2) xs))"

text \<open>\<^verbatim>\<open>np.min\<close> and \<^verbatim>\<open>np.max\<close> raise ValueError on an empty array.\<close>

definition np_min :: "real list \<Rightarrow> py_error + real" where
  "np_min xs = (case xs of [] \<Rightarrow> Inl ValueError | v # vs \<Rightarrow> Inr (foldl min v vs))"

definition np_max :: "real list \<Rightarrow> py_error + real" where
  "np_max xs = (case xs of [] \<Rightarrow> Inl ValueError | v # vs \<Rightarrow> Inr (foldl max v vs))"

text \<open>
  \<^verbatim>\<open>np.percentile(a, q)\<close> with the default method (linear interpolation): the virtual
  index \<open>(n - 1) * q / 100\<close> in the sorted array, its floor \<open>j\<close> and the next index
  (clipped to \<open>n - 1\<close>), and the interpolation between the two entries. Only used on
  non-empty arrays.
\<close>

definition np_percentile :: "real list \<Rightarrow> real \<Rightarrow> real" where
  "np_percentile a q =
     (let srt = sort a;
          n = length srt;
          virtual_index = real (n - 1) * (q / 100);
          j = nat \<lfloor>virtual_index\<rfloor>;
          j_next = min (j + 1) (n - 1);
          gamma = virtual_index - real j
      in srt ! j + (srt ! j_next - srt ! j) * gamma)"

text \<open>\<^verbatim>\<open>scipy.special.expit\<close>, the logistic function.\<close>

definition expit :: "real \<Rightarrow> real" where
  "expit v = 1 / (1 + exp (- v))"

text \<open>
  The global generator of \<^verbatim>\<open>np.random\<close> is the sequence of standard-normal variates it
  will yield from its current state. \<^verbatim>\<open>np.random.normal(loc, scale)\<close> raises ValueError
  for a negative scale, before drawing; otherwise it consumes one variate and returns
  \<open>loc + scale * z\<close>.
\<close>

type_synonym rng = "nat \<Rightarrow> real"

definition advance :: "nat \<Rightarrow> rng \<Rightarrow> rng" where
  "advance k g = (\<lambda>n. g (n + k))"

definition random_normal :: "real \<Rightarrow> real \<Rightarrow> rng \<Rightarrow> (py_error + real) \<times> rng" where
  "random_normal loc scale g =
     (if scale < 0 then (Inl ValueError, g)
      else (Inr (loc + scale * g 0), advance 1 g))"

text \<open>
  \<^verbatim>\<open>scipy.optimize.minimize\<close> is a parameter of the model: it receives the objective,
  the initial guess, the bounds and \<^verbatim>\<open>maxiter\<close>, and returns an \<^verbatim>\<open>OptimizeResult\<close> or raises.
\<close>

record optimize_result =
  opt_success :: bool
  opt_message :: string
  opt_x :: params
  opt_nit :: nat

type_synonym minimize_fn =
  "(params \<Rightarrow> py_error + ekf_return) \<Rightarrow> params \<Rightarrow> (real \<times> real) list \<Rightarrow> nat
     \<Rightarrow> py_error + optimize_result"

text \<open>Python's \<^verbatim>\<open>str\<close> on a non-negative integer: its decimal digits.\<close>

fun str_nat :: "nat \<Rightarrow> string" where
  "str_nat n =
     (if n < 10 then [''0123456789'' ! n]
      else str_nat (n div 10) @ [''0123456789'' ! (n mod 10)])"

section \<open>The tables\<close>

text \<open>
  The rows of the SQLAlchemy models, with the columns the services read or write. A
  nullable column is an option. The session is the record of the tables; a query with
  \<^verbatim>\<open>filter\<close> is \<open>filter\<close> on the list, \<^verbatim>\<open>order_by\<close> a stable sort, \<^verbatim>\<open>first()\<close> the head.
\<close>

record configuration =
  config_id :: string
  application_rate_t_ha :: "real option"
  chemistry_factor_K :: "real option"

record lab_record =
  config_id :: string
  time_months :: real
  co2_uptake_t_per_t :: real

record field_record =
  config_id :: string
  window_start :: int
  window_end :: int
  co2_removed_t_ha :: real

text \<open>
  Modelled from the spec: \<^verbatim>\<open>app/models/base.py\<close> (\<^verbatim>\<open>BaseModel\<close>) is not among the sources;
  of its columns only \<open>created_at\<close> is used, the persisted-at timestamp by which the most
  recent posterior is looked up.
\<close>

record state_posterior =
  config_id :: string
  created_at :: real
  eta_r0_mean :: "real option"
  eta_r0_var :: "real option"
  eta_phi0_mean :: "real option"
  eta_phi0_var :: "real option"
  alpha_r :: "real option"
  alpha_phi :: "real option"
  sigma_r :: "real option"
  sigma_phi :: "real option"

text \<open>
  The JSON column \<^verbatim>\<open>parameters\<close> of a risk profile: numbers, arrays and objects.
  An object is the list of its entries, with distinct keys. Strings, booleans and
  \<^verbatim>\<open>null\<close> inside the column are not modelled.
\<close>

datatype json =
    JNum real
  | JList "json list"
  | JDict "(string \<times> json) list"

record risk_profile =
  risk_id :: string
  parameters :: "json option"

record simulation_result =
  config_id :: string
  n_total :: "real option"
  run_index :: "nat option"

record database =
  configurations :: "configuration list"
  lab_records :: "lab_record list"
  field_records :: "field_record list"
  state_posteriors :: "state_posterior list"
  risk_profiles :: "risk_profile list"
  simulation_results :: "simulation_result list"

definition first_row :: "'a list \<Rightarrow> 'a option" where
  "first_row rows = (case rows of [] \<Rightarrow> None | r # _ \<Rightarrow> Some r)"

text \<open>The queries of the services.\<close>

definition find_configuration :: "database \<Rightarrow> string \<Rightarrow> configuration option" where
  "find_configuration db cid =
     first_row (filter (\<lambda>c. configuration.config_id c = cid) (configurations db))"

definition lab_records_of :: "database \<Rightarrow> string \<Rightarrow> lab_record list" where
  "lab_records_of db cid =
     sort_key time_months (filter (\<lambda>r. lab_record.config_id r = cid) (lab_records db))"

definition field_records_of :: "database \<Rightarrow> string \<Rightarrow> field_record list" where
  "field_records_of db cid =
     sort_key window_start (filter (\<lambda>r. field_record.config_id r = cid) (field_records db))"

definition existing_posterior :: "database \<Rightarrow> string \<Rightarrow> state_posterior option" where
  "existing_posterior db cid =
     first_row (filter (\<lambda>r. state_posterior.config_id r = cid) (state_posteriors db))"

text \<open>
  \<^verbatim>\<open>order_by(StatePosterior.created_at.desc()).first()\<close>: the rows in descending order of
  the timestamp, rows with equal timestamps in the order of their insertion (the order
  in which SQLite yields them), so that of several most recent rows the one inserted
  first is read.
\<close>

definition latest_posterior :: "database \<Rightarrow> string \<Rightarrow> state_posterior option" where
  "latest_posterior db cid =
     first_row (sort_key (\<lambda>r. - created_at r)
       (filter (\<lambda>r. state_posterior.config_id r = cid) (state_posteriors db)))"

definition find_risk_profile :: "database \<Rightarrow> string \<Rightarrow> risk_profile option" where
  "find_risk_profile db rid = first_row (filter (\<lambda>r. risk_id r = rid) (risk_profiles db))"

definition existing_results_of :: "database \<Rightarrow> string \<Rightarrow> simulation_result list" where
  "existing_results_of db cid =
     filter (\<lambda>r. simulation_result.config_id r = cid) (simulation_results db)"

text \<open>The services answer with a dictionary whose \<^verbatim>\<open>status\<close> is \<^verbatim>\<open>error\<close> or \<^verbatim>\<open>success\<close>.\<close>

datatype 'a response =
    Error string
  | Success 'a

text \<open>
  Modelled from the spec: \<^verbatim>\<open>app/constants.py\<close> is not among the sources. Its values are
  parameters of the model; the specification fixes the horizon at 120 months.
\<close>

record constants =
  SIMULATION_MONTHS :: nat
  DEFAULT_TARGET_MULTIPLIER :: real
  DEFAULT_TARGET_FALLBACK :: real

section \<open>\<^verbatim>\<open>ModelStateService.update_state\<close>\<close>

record update_success =
  config_id :: string
  posterior :: "(string \<times> real) list"
  optimization_success :: bool
  negative_log_likelihood :: real
  iterations :: nat
  data_lab_records :: nat
  data_field_records :: nat

text \<open>Step 2: the priors. \<open>y_lab\<close> is not empty where the first one is computed.\<close>

definition prior_eta_r0_mean :: "real list \<Rightarrow> real" where
  "prior_eta_r0_mean y_lab = ln (max (y_lab ! 0) eps)"

definition prior_eta_phi0_mean :: "field_record list \<Rightarrow> real" where
  "prior_eta_phi0_mean field =
     (if field \<noteq> [] then ln (max (np_mean (map co2_removed_t_ha field)) eps) else 0)"

text \<open>Steps 3 and 4: the initial guess, the bounds, and the call of the optimiser.\<close>

definition initial_params :: "real list \<Rightarrow> params" where
  "initial_params y_lab = (0, 0, 0.1, 0.1, np_std y_lab * 0.1)"

definition bounds :: "(real \<times> real) list" where
  "bounds = [(- 1, 1), (- 1, 1), (eps, 10), (eps, 10), (eps, 10)]"

definition fit_parameters ::
  "minimize_fn \<Rightarrow> lab_record list \<Rightarrow> field_record list \<Rightarrow> py_error + optimize_result" where
  "fit_parameters minimize lab field =
     (let time_points = map time_months lab;
          y_lab = map co2_uptake_t_per_t lab
      in minimize
           (\<lambda>p. extended_kalman_filter p time_points y_lab
                  (prior_eta_r0_mean y_lab) 1 (prior_eta_phi0_mean field) 1 False)
           (initial_params y_lab) bounds 1000)"

text \<open>
  Step 5: the first posterior of the configuration is overwritten when there is one,
  otherwise a new row is added.
\<close>

fun update_first :: "('a \<Rightarrow> bool) \<Rightarrow> ('a \<Rightarrow> 'a) \<Rightarrow> 'a list \<Rightarrow> 'a list" where
  "update_first P f [] = []"
| "update_first P f (r # rows) = (if P r then f r # rows else r # update_first P f rows)"

definition store_posterior ::
  "real \<Rightarrow> string \<Rightarrow> real \<Rightarrow> real \<Rightarrow> real \<Rightarrow> real \<Rightarrow> real \<Rightarrow> real \<Rightarrow> real \<Rightarrow> real
     \<Rightarrow> database \<Rightarrow> database" where
  "store_posterior now cid m_r v_r m_phi v_phi a_r a_phi s_r s_phi db =
     (case existing_posterior db cid of
        Some existing \<Rightarrow>
          db\<lparr> state_posteriors :=
                update_first (\<lambda>r. state_posterior.config_id r = cid)
                  (\<lambda>r. r\<lparr> eta_r0_mean := Some m_r, eta_r0_var := Some v_r,
                          eta_phi0_mean := Some m_phi, eta_phi0_var := Some v_phi,
                          alpha_r := Some a_r, alpha_phi := Some a_phi,
                          sigma_r := Some s_r, sigma_phi := Some s_phi \<rparr>)
                  (state_posteriors db) \<rparr>
      | None \<Rightarrow>
          db\<lparr> state_posteriors :=
                state_posteriors db @
                  [\<lparr> state_posterior.config_id = cid, created_at = now,
                     eta_r0_mean = Some m_r, eta_r0_var = Some v_r,
                     eta_phi0_mean = Some m_phi, eta_phi0_var = Some v_phi,
                     alpha_r = Some a_r, alpha_phi = Some a_phi,
                     sigma_r = Some s_r, sigma_phi = Some s_phi \<rparr>] \<rparr>)"

definition update_error :: string where
  "update_error = ''An error occurred while updating model state''"

text \<open>
  \<open>update_state\<close> takes the optimiser and the clock (for \<open>created_at\<close> of a new row) as
  parameters, and returns the response with the session after commit or rollback.
\<close>

definition update_state ::
  "minimize_fn \<Rightarrow> real \<Rightarrow> database \<Rightarrow> string \<Rightarrow> update_success response \<times> database" where
  "update_state minimize now db cid =
     (case find_configuration db cid of
        None \<Rightarrow> (Error (''Configuration '' @ cid @ '' not found''), db)
      | Some config \<Rightarrow>
          let lab = lab_records_of db cid;
              field = field_records_of db cid
          in if lab = []
             then (Error (''No lab records found for configuration '' @ cid), db)
             else
               let time_points = map time_months lab;
                   y_lab = map co2_uptake_t_per_t lab;
                   m_r = prior_eta_r0_mean y_lab;
                   v_r = 1;
                   m_phi = prior_eta_phi0_mean field;
                   v_phi = 1
               in (case fit_parameters minimize lab field of
                     Inl e \<Rightarrow> (Error update_error, db)
                   | Inr result \<Rightarrow>
                       if \<not> opt_success result
                       then (Error (''Optimization failed: '' @ opt_message result), db)
                       else
                         (case opt_x result of
                            (alpha_r_fit, alpha_phi_fit, sigma_r_fit, sigma_phi_fit, sigma_lab_fit) \<Rightarrow>
                            (case extended_kalman_filter (opt_x result) time_points y_lab
                                    m_r v_r m_phi v_phi True of
                               Inr (FinalState final_neg_ll eta_r_final eta_phi_final
                                      P_r_final P_phi_final) \<Rightarrow>
                                 (Success
                                    \<lparr> update_success.config_id = cid,
                                      posterior =
                                        [(''eta_r0_mean'', eta_r_final),
                                         (''eta_r0_var'', P_r_final),
                                         (''eta_phi0_mean'', eta_phi_final),
                                         (''eta_phi0_var'', P_phi_final),
                                         (''alpha_r'', alpha_r_fit),
                                         (''alpha_phi'', alpha_phi_fit),
                                         (''sigma_r'', sigma_r_fit),
                                         (''sigma_phi'', sigma_phi_fit)],
                                      optimization_success = opt_success result,
                                      negative_log_likelihood = final_neg_ll,
                                      iterations = opt_nit result,
                                      data_lab_records = length lab,
                                      data_field_records = length field \<rparr>,
                                  store_posterior now cid eta_r_final P_r_final
                                    eta_phi_final P_phi_final alpha_r_fit alpha_phi_fit
                                    sigma_r_fit sigma_phi_fit db)
                             | _ \<Rightarrow> (Error update_error, db)))))"

section \<open>\<^verbatim>\<open>SimulationService.simulate\<close>\<close>

subsection \<open>Risk multipliers\<close>

text \<open>
  The multiplier of month \<open>t\<close>, lines 206 to 218: a list gives its \<open>t\<close>-th element, or
  its last one beyond its length (1.0 when it is empty); a dict gives the entry at
  \<^verbatim>\<open>str(t)\<close>, else the entry at \<^verbatim>\<open>"default"\<close>, else 1.0; anything else is the number itself.
\<close>

definition resolve_multiplier :: "json \<Rightarrow> nat \<Rightarrow> json" where
  "resolve_multiplier risk_multipliers t =
     (case risk_multipliers of
        JList xs \<Rightarrow>
          if t < length xs then xs ! t
          else (if length xs > 0 then last xs else JNum 1)
      | JDict d \<Rightarrow>
          (case map_of d (str_nat t) of
             Some v \<Rightarrow> v
           | None \<Rightarrow> (case map_of d ''default'' of Some v \<Rightarrow> v | None \<Rightarrow> JNum 1))
      | JNum v \<Rightarrow> JNum v)"

text \<open>
  \<^verbatim>\<open>N_t * multiplier\<close>, with \<open>N_t\<close> a \<^verbatim>\<open>numpy.float64\<close>: a number multiplies; a dict raises
  TypeError, and so does a list (the numpy scalar leaves the product to the sequence,
  which cannot be repeated by a float).
\<close>

definition times_multiplier :: "real \<Rightarrow> json \<Rightarrow> py_error + real" where
  "times_multiplier N_t multiplier =
     (case multiplier of
        JNum m \<Rightarrow> Inr (N_t * m)
      | JList _ \<Rightarrow> Inl TypeError
      | JDict _ \<Rightarrow> Inl TypeError)"

definition apply_risk :: "json option \<Rightarrow> nat \<Rightarrow> real \<Rightarrow> py_error + real" where
  "apply_risk risk_multipliers t N_t =
     (case risk_multipliers of
        None \<Rightarrow> Inr N_t
      | Some rm \<Rightarrow> times_multiplier N_t (resolve_multiplier rm t))"

text \<open>
  Lines 141 to 147: a truthy \<^verbatim>\<open>parameters\<close> gives the multipliers, the entry
  \<^verbatim>\<open>"multipliers"\<close> or else the whole dict; \<^verbatim>\<open>.get\<close> on a truthy value that is not a dict
  raises AttributeError.
\<close>

definition load_risk_multipliers :: "json option \<Rightarrow> py_error + json option" where
  "load_risk_multipliers ps =
     (case ps of
        None \<Rightarrow> Inr None
      | Some (JDict d) \<Rightarrow>
          if d = [] then Inr None
          else (case map_of d ''multipliers'' of
                  Some v \<Rightarrow> Inr (Some v)
                | None \<Rightarrow> Inr (Some (JDict d)))
      | Some (JList xs) \<Rightarrow> if xs = [] then Inr None else Inl AttributeError
      | Some (JNum v) \<Rightarrow> if v = 0 then Inr None else Inl AttributeError)"

text \<open>
  Lines 129 to 147. The optional id is falsy when it is \<^verbatim>\<open>None\<close> or empty. The result is
  the message of the error response when the profile is not found, else the exception
  or the multipliers.
\<close>

definition truthy_id :: "string option \<Rightarrow> string option" where
  "truthy_id risk_profile =
     (case risk_profile of None \<Rightarrow> None | Some rid \<Rightarrow> if rid = [] then None else Some rid)"

definition load_risk :: "database \<Rightarrow> string option \<Rightarrow> string + (py_error + json option)" where
  "load_risk db risk_profile =
     (case truthy_id risk_profile of
        None \<Rightarrow> Inr (Inr None)
      | Some rid \<Rightarrow>
          (case find_risk_profile db rid of
             None \<Rightarrow> Inl (''Risk profile '' @ rid @ '' not found'')
           | Some risk \<Rightarrow> Inr (load_risk_multipliers (parameters risk))))"

subsection \<open>Step 1: loading\<close>

text \<open>
  The values that step 1 extracts from the configuration, the most recent posterior and
  the risk profile, all present.
\<close>

record sim_inputs =
  i_A :: real
  i_K :: real
  i_eta_r0_mean :: real
  i_eta_r0_var :: real
  i_eta_phi0_mean :: real
  i_eta_phi0_var :: real
  i_alpha_r :: real
  i_alpha_phi :: real
  i_sigma_r :: real
  i_sigma_phi :: real
  i_risk_multipliers :: "json option"

definition simulate_error :: string where
  "simulate_error = ''An error occurred while running simulation''"

text \<open>
  Lines 106 to 174, in the order of the checks: the configuration, the posterior, the
  risk profile, the parameters of the configuration, the fields of the posterior. The
  result is the message of the error response, or the inputs of the runs.
\<close>

definition load_inputs :: "database \<Rightarrow> string \<Rightarrow> string option \<Rightarrow> string + sim_inputs" where
  "load_inputs db cid risk_profile =
     (case find_configuration db cid of
        None \<Rightarrow> Inl (''Configuration '' @ cid @ '' not found'')
      | Some config \<Rightarrow>
     (case latest_posterior db cid of
        None \<Rightarrow> Inl (''No posterior found for configuration '' @ cid
                      @ ''. Run update_state first.'')
      | Some post \<Rightarrow>
     (case load_risk db risk_profile of
        Inl msg \<Rightarrow> Inl msg
      | Inr (Inl e) \<Rightarrow> Inl simulate_error
      | Inr (Inr risk_multipliers) \<Rightarrow>
     (case (application_rate_t_ha config, chemistry_factor_K config) of
        (Some A, Some K) \<Rightarrow>
          (case (eta_r0_mean post, eta_r0_var post, eta_phi0_mean post, eta_phi0_var post,
                 alpha_r post, alpha_phi post, sigma_r post, sigma_phi post) of
             (Some m_r, Some v_r, Some m_phi, Some v_phi,
              Some a_r, Some a_phi, Some s_r, Some s_phi) \<Rightarrow>
               Inr \<lparr> i_A = A, i_K = K,
                     i_eta_r0_mean = m_r, i_eta_r0_var = v_r,
                     i_eta_phi0_mean = m_phi, i_eta_phi0_var = v_phi,
                     i_alpha_r = a_r, i_alpha_phi = a_phi,
                     i_sigma_r = s_r, i_sigma_phi = s_phi,
                     i_risk_multipliers = risk_multipliers \<rparr>
           | _ \<Rightarrow> Inl (''Posterior for '' @ cid @ '' has missing parameters''))
      | _ \<Rightarrow> Inl (''Configuration '' @ cid
                    @ '' missing required parameters (application_rate_t_ha or chemistry_factor_K)'')))))"

subsection \<open>Step 2: the loops\<close>

text \<open>
  The loop over the months of one run, with the loop variables \<open>eta_r\<close>, \<open>eta_phi\<close> and the
  array \<open>N\<close>. Each month draws the noise of the r channel, then that of the phi channel.
\<close>

fun month_loop ::
  "sim_inputs \<Rightarrow> nat list \<Rightarrow> real \<times> real \<times> real list \<Rightarrow> rng
     \<Rightarrow> (py_error + real \<times> real \<times> real list) \<times> rng" where
  "month_loop inp [] st g = (Inr st, g)"
| "month_loop inp (t # rest) (e_r, e_phi, N) g =
     (case random_normal 0 (i_sigma_r inp) g of
        (Inl e, g1) \<Rightarrow> (Inl e, g1)
      | (Inr noise_r, g1) \<Rightarrow>
          let e_r' = e_r + i_alpha_r inp + noise_r in
          (case random_normal 0 (i_sigma_phi inp) g1 of
             (Inl e, g2) \<Rightarrow> (Inl e, g2)
           | (Inr noise_phi, g2) \<Rightarrow>
               let e_phi' = e_phi + i_alpha_phi inp + noise_phi;
                   r_t = exp e_r';
                   phi_t = expit e_phi';
                   N_t = i_A inp * i_K inp * r_t * phi_t
               in (case apply_risk (i_risk_multipliers inp) t N_t of
                     Inl e \<Rightarrow> (Inl e, g2)
                   | Inr N_t' \<Rightarrow> month_loop inp rest (e_r', e_phi', N[t := N_t']) g2)))"

text \<open>
  The body of the loop over the runs, up to the total of the run: the run draws its
  initial \<open>eta_r\<close> and \<open>eta_phi\<close>, simulates the months from an array of zeros and sums
  the array. For a negative variance \<^verbatim>\<open>np.sqrt\<close> gives \<open>nan\<close>: the code draws all the same, and
  the run ends with the total \<open>nan\<close>. The reals have no such value, and the model does
  not follow the code there: its square root is negative and its draw is refused. So
  the model describes the runs of a posterior whose variances are not negative, and
  the theorems about the totals below are stated for such a posterior only.
\<close>

definition single_run :: "nat \<Rightarrow> sim_inputs \<Rightarrow> rng \<Rightarrow> (py_error + real) \<times> rng" where
  "single_run n_months inp g =
     (case random_normal (i_eta_r0_mean inp) (sqrt (i_eta_r0_var inp)) g of
        (Inl e, g1) \<Rightarrow> (Inl e, g1)
      | (Inr e_r, g1) \<Rightarrow>
          (case random_normal (i_eta_phi0_mean inp) (sqrt (i_eta_phi0_var inp)) g1 of
             (Inl e, g2) \<Rightarrow> (Inl e, g2)
           | (Inr e_phi, g2) \<Rightarrow>
               (case month_loop inp [0..<n_months] (e_r, e_phi, replicate n_months 0) g2 of
                  (Inl e, g3) \<Rightarrow> (Inl e, g3)
                | (Inr (e_r', e_phi', N), g3) \<Rightarrow> (Inr (sum_list N), g3))))"

text \<open>
  The loop over the runs, with the lists \<open>n_totals\<close> and \<open>simulation_results\<close>: each total
  is recorded with its run index.
\<close>

fun run_loop ::
  "string \<Rightarrow> nat \<Rightarrow> sim_inputs \<Rightarrow> nat list \<Rightarrow> real list \<times> simulation_result list \<Rightarrow> rng
     \<Rightarrow> (py_error + real list \<times> simulation_result list) \<times> rng" where
  "run_loop cid n_months inp [] acc g = (Inr acc, g)"
| "run_loop cid n_months inp (run_i # rest) (totals, results) g =
     (case single_run n_months inp g of
        (Inl e, g') \<Rightarrow> (Inl e, g')
      | (Inr tot, g') \<Rightarrow>
          run_loop cid n_months inp rest
            (totals @ [tot],
             results @ [\<lparr> simulation_result.config_id = cid,
                          n_total = Some tot, run_index = Some run_i \<rparr>])
            g')"

subsection \<open>The method\<close>

record sim_summary =
  mean :: real
  std :: real
  minimum :: real
  maximum :: real
  p5 :: real
  p50 :: real
  p95 :: real

record simulate_success =
  config_id :: string
  n_runs :: int
  n_totals :: "real list"
  summary :: sim_summary
  risk_profile_id :: "string option"

text \<open>
  The \<^verbatim>\<open>summary\<close> of the response. On an empty list \<^verbatim>\<open>np.mean\<close> and \<^verbatim>\<open>np.std\<close> only warn,
  and \<^verbatim>\<open>np.min\<close> raises.
\<close>

definition summary_of :: "real list \<Rightarrow> py_error + sim_summary" where
  "summary_of totals =
     (case np_min totals of
        Inl e \<Rightarrow> Inl e
      | Inr mn \<Rightarrow>
          (case np_max totals of
             Inl e \<Rightarrow> Inl e
           | Inr mx \<Rightarrow>
               Inr \<lparr> mean = np_mean totals, std = np_std totals, minimum = mn, maximum = mx,
                     p5 = np_percentile totals 5, p50 = np_percentile totals 50,
                     p95 = np_percentile totals 95 \<rparr>))"

text \<open>
  \<open>simulate\<close> reads the session and the generator and returns the response, the session
  after commit or rollback, and the generator. The results are added and committed
  before the response is built.
\<close>

definition simulate ::
  "constants \<Rightarrow> database \<Rightarrow> rng \<Rightarrow> string \<Rightarrow> int \<Rightarrow> string option
     \<Rightarrow> simulate_success response \<times> database \<times> rng" where
  "simulate consts db g cid nruns risk_profile =
     (case load_inputs db cid risk_profile of
        Inl msg \<Rightarrow> (Error msg, db, g)
      | Inr inp \<Rightarrow>
          (let n_months = SIMULATION_MONTHS consts
           in case run_loop cid n_months inp [0..<nat nruns] ([], []) g of
                (Inl e, g') \<Rightarrow> (Error simulate_error, db, g')
              | (Inr (totals, results), g') \<Rightarrow>
                  (case summary_of totals of
                     Inl e \<Rightarrow> (Error simulate_error,
                               db\<lparr> simulation_results := simulation_results db @ results \<rparr>, g')
                   | Inr sm \<Rightarrow>
                       (Success \<lparr> simulate_success.config_id = cid, n_runs = nruns,
                                  n_totals = totals, summary = sm,
                                  risk_profile_id = truthy_id risk_profile \<rparr>,
                        db\<lparr> simulation_results := simulation_results db @ results \<rparr>, g'))))"

section \<open>\<^verbatim>\<open>ResultsService.summarize\<close>\<close>

record statistics = sim_summary +
  count :: nat

record summarize_success =
  config_id :: string
  stats :: statistics
  target :: real
  p_hit :: real
  n_runs :: nat

text \<open>
  Step 3: the target, when none is given, is the application rate times the default
  multiplier, or the fallback when the rate (or the configuration) is missing.
\<close>

definition default_target :: "constants \<Rightarrow> database \<Rightarrow> string \<Rightarrow> real" where
  "default_target consts db cid =
     (case find_configuration db cid of
        Some config \<Rightarrow>
          (case application_rate_t_ha config of
             Some A \<Rightarrow> A * DEFAULT_TARGET_MULTIPLIER consts
           | None \<Rightarrow> DEFAULT_TARGET_FALLBACK consts)
      | None \<Rightarrow> DEFAULT_TARGET_FALLBACK consts)"

text \<open>
  Step 1 yields the ensemble: the totals of a fresh simulation when nothing is stored
  and \<open>n_runs\<close> is given, or the stored totals that are not null; or the message of the
  error response.
\<close>

definition ensemble ::
  "constants \<Rightarrow> database \<Rightarrow> rng \<Rightarrow> string \<Rightarrow> int option \<Rightarrow> string option
     \<Rightarrow> (string + real list) \<times> database \<times> rng" where
  "ensemble consts db g cid nruns risk_profile =
     (let existing_results = existing_results_of db cid
      in if existing_results = [] \<and> nruns \<noteq> None
         then (case simulate consts db g cid (the nruns) risk_profile of
                 (Error msg, db', g') \<Rightarrow> (Inl (''Failed to run simulation: '' @ msg), db', g')
               | (Success sim_result, db', g') \<Rightarrow>
                   (Inr (simulate_success.n_totals sim_result), db', g'))
         else if existing_results \<noteq> []
         then (Inr (List.map_filter n_total existing_results), db, g)
         else (Inl (''No simulation results found for '' @ cid
                      @ '' and n_runs not provided''), db, g))"

text \<open>Steps 2 to 4, on the ensemble: the statistics, the target and the hit probability.\<close>

definition summarize_totals ::
  "constants \<Rightarrow> database \<Rightarrow> string \<Rightarrow> real option \<Rightarrow> real list
     \<Rightarrow> summarize_success response" where
  "summarize_totals consts db cid target_arg totals =
     (if length totals = 0
      then Error (''No valid simulation results for '' @ cid)
      else
        (case summary_of totals of
           Inl e \<Rightarrow> Error ''An error occurred while summarizing results''
         | Inr sm \<Rightarrow>
             let tgt = (case target_arg of
                          Some tg \<Rightarrow> tg
                        | None \<Rightarrow> default_target consts db cid);
                 hit = np_mean (map (\<lambda>v. if v \<ge> tgt then 1 else 0) totals)
             in Success \<lparr> summarize_success.config_id = cid,
                          stats = sim_summary.extend sm (statistics.fields (length totals)),
                          target = tgt, p_hit = hit, n_runs = length totals \<rparr>))"

definition summarize ::
  "constants \<Rightarrow> database \<Rightarrow> rng \<Rightarrow> string \<Rightarrow> real option \<Rightarrow> int option \<Rightarrow> string option
     \<Rightarrow> summarize_success response \<times> database \<times> rng" where
  "summarize consts db g cid target_arg nruns risk_profile =
     (case ensemble consts db g cid nruns risk_profile of
        (Inl msg, db', g') \<Rightarrow> (Error msg, db', g')
      | (Inr totals, db', g') \<Rightarrow>
          (summarize_totals consts db' cid target_arg totals, db', g'))"

section \<open>The summary in the words of the specification\<close>

text \<open>
  The population standard deviation, the percentile by linear interpolation between the
  two entries of the sorted ensemble that enclose the position \<open>q / 100 * (n - 1)\<close>, and
  the fraction of totals that reach the target.
\<close>

definition spec_std :: "real list \<Rightarrow> real" where
  "spec_std xs =
     (let n = real (length xs);
          mu = sum_list xs / n
      in sqrt ((\<Sum>v\<leftarrow>xs. (v - mu) ^ 2) / n))"

definition spec_percentile :: "real list \<Rightarrow> real \<Rightarrow> real" where
  "spec_percentile xs q =
     (let srt = sort xs;
          pos = q / 100 * real (length xs - 1);
          lo = nat \<lfloor>pos\<rfloor>;
          hi = nat \<lceil>pos\<rceil>
      in srt ! lo + (pos - real lo) * (srt ! hi - srt ! lo))"

definition spec_p_hit :: "real list \<Rightarrow> real \<Rightarrow> real" where
  "spec_p_hit xs tgt = real (length (filter (\<lambda>v. tgt \<le> v) xs)) / real (length xs)"

definition spec_target :: "constants \<Rightarrow> database \<Rightarrow> string \<Rightarrow> real option \<Rightarrow> real" where
  "spec_target consts db cid target_arg =
     (case target_arg of
        Some tg \<Rightarrow> tg
      | None \<Rightarrow>
          (case find_configuration db cid of
             None \<Rightarrow> DEFAULT_TARGET_FALLBACK consts
           | Some config \<Rightarrow>
               (case application_rate_t_ha config of
                  None \<Rightarrow> DEFAULT_TARGET_FALLBACK consts
                | Some A \<Rightarrow> A * DEFAULT_TARGET_MULTIPLIER consts)))"

section \<open>The simulation in the words of the specification\<close>

text \<open>
  A latent channel that advances each month by its drift plus Gaussian noise: its value
  after the advance of month \<open>t\<close>, from the initial value \<open>x0\<close>, with the standard-normal
  variate \<open>noise t\<close> scaled by the noise scale.
\<close>

primrec spec_walk :: "real \<Rightarrow> real \<Rightarrow> real \<Rightarrow> (nat \<Rightarrow> real) \<Rightarrow> nat \<Rightarrow> real" where
  "spec_walk x0 drift scale noise 0 = x0 + drift + scale * noise 0"
| "spec_walk x0 drift scale noise (Suc t) =
     spec_walk x0 drift scale noise t + drift + scale * noise (Suc t)"

text \<open>
  The variates of one run, in the order in which it draws them: \<open>z 0\<close> and \<open>z 1\<close> for the
  initial state, then \<open>z (2 + 2 * t)\<close> and \<open>z (3 + 2 * t)\<close> for month \<open>t\<close>. The monthly
  removal is \<open>N_t = A * K * exp eta_r * logistic eta_phi\<close>, times the multiplier of the
  month.
\<close>

definition spec_N :: "sim_inputs \<Rightarrow> (nat \<Rightarrow> real) \<Rightarrow> rng \<Rightarrow> nat \<Rightarrow> real" where
  "spec_N inp mult z t =
     i_A inp * i_K inp
       * exp (spec_walk (i_eta_r0_mean inp + sqrt (i_eta_r0_var inp) * z 0)
                (i_alpha_r inp) (i_sigma_r inp) (\<lambda>j. z (2 + 2 * j)) t)
       * (1 / (1 + exp (- spec_walk (i_eta_phi0_mean inp + sqrt (i_eta_phi0_var inp) * z 1)
                           (i_alpha_phi inp) (i_sigma_phi inp) (\<lambda>j. z (3 + 2 * j)) t)))
       * mult t"

definition spec_total :: "nat \<Rightarrow> sim_inputs \<Rightarrow> (nat \<Rightarrow> real) \<Rightarrow> rng \<Rightarrow> real" where
  "spec_total n_months inp mult z = (\<Sum>t<n_months. spec_N inp mult z t)"

text \<open>
  The multiplier of a month as a number: 1 without a risk source, the resolved
  multiplier when it is a number.
\<close>

definition risk_factor :: "json option \<Rightarrow> nat \<Rightarrow> real option" where
  "risk_factor rm t =
     (case rm of
        None \<Rightarrow> Some 1
      | Some r \<Rightarrow> (case resolve_multiplier r t of JNum m \<Rightarrow> Some m | _ \<Rightarrow> None))"

text \<open>Two generators that yield the same first \<open>n\<close> variates.\<close>

definition agree :: "nat \<Rightarrow> rng \<Rightarrow> rng \<Rightarrow> bool" where
  "agree n g g' = (\<forall>i<n. g i = g' i)"

text \<open>The number of variates one run draws, and the variates of run \<open>i\<close>.\<close>

definition draws_per_run :: "nat \<Rightarrow> nat" where
  "draws_per_run n_months = 2 + 2 * n_months"

definition run_draws :: "nat \<Rightarrow> rng \<Rightarrow> nat \<Rightarrow> rng" where
  "run_draws n_months g i = advance (i * draws_per_run n_months) g"

section \<open>Example data\<close>

text \<open>
  The lab observations of Example 1 of the specification, \<open>(1, 0.010)\<close> and \<open>(2, 0.018)\<close>,
  for one configuration with no field data, and an optimiser that reports convergence
  at a vector inside the bounds.
\<close>

definition example_db :: database where
  "example_db =
     \<lparr> configurations =
         [\<lparr> configuration.config_id = ''cfg-1'', application_rate_t_ha = Some 10,
            chemistry_factor_K = Some (1 / 2) \<rparr>],
       lab_records =
         [\<lparr> lab_record.config_id = ''cfg-1'', time_months = 1, co2_uptake_t_per_t = 1 / 100 \<rparr>,
          \<lparr> lab_record.config_id = ''cfg-1'', time_months = 2, co2_uptake_t_per_t = 9 / 500 \<rparr>],
       field_records = [],
       state_posteriors = [],
       risk_profiles = [],
       simulation_results = [] \<rparr>"

definition example_minimize :: minimize_fn where
  "example_minimize objective x0 bnds maxiter =
     Inr \<lparr> opt_success = True, opt_message = ''CONVERGENCE'',
           opt_x = (1 / 2, 0, 1 / 10, 1 / 10, 1 / 500), opt_nit = 12 \<rparr>"

text \<open>
  Examples 3 to 5 of the specification: a posterior with almost no noise, the risk
  mapping that doubles month 0, five stored totals and one stored row without a total.
  The constants are those of the specification where it gives them (the horizon); the
  target constants are sample values.
\<close>

definition example_consts :: constants where
  "example_consts =
     \<lparr> SIMULATION_MONTHS = 120, DEFAULT_TARGET_MULTIPLIER = 2, DEFAULT_TARGET_FALLBACK = 100 \<rparr>"

definition example_risk :: json where
  "example_risk = JDict [(''0'', JNum 2), (''default'', JNum 1)]"

definition example_inputs :: sim_inputs where
  "example_inputs =
     \<lparr> i_A = 10, i_K = 1 / 2,
       i_eta_r0_mean = - 2, i_eta_r0_var = 1 / 100,
       i_eta_phi0_mean = 0, i_eta_phi0_var = 1 / 100,
       i_alpha_r = 0, i_alpha_phi = 0,
       i_sigma_r = 1 / 10 ^ 6, i_sigma_phi = 1 / 10 ^ 6,
       i_risk_multipliers = Some example_risk \<rparr>"

definition example_sim_db :: database where
  "example_sim_db =
     \<lparr> configurations =
         [\<lparr> configuration.config_id = ''cfg-1'', application_rate_t_ha = Some 10,
            chemistry_factor_K = Some (1 / 2) \<rparr>],
       lab_records = [],
       field_records = [],
       state_posteriors =
         [\<lparr> state_posterior.config_id = ''cfg-1'', created_at = 0,
            eta_r0_mean = Some (- 2), eta_r0_var = Some (1 / 100),
            eta_phi0_mean = Some 0, eta_phi0_var = Some (1 / 100),
            alpha_r = Some 0, alpha_phi = Some 0,
            sigma_r = Some (1 / 10 ^ 6), sigma_phi = Some (1 / 10 ^ 6) \<rparr>],
       risk_profiles = [\<lparr> risk_id = ''risk-1'', parameters = Some example_risk \<rparr>],
       simulation_results = [] \<rparr>"

definition example_mult :: "nat \<Rightarrow> real" where
  "example_mult t = (if t = 0 then 2 else 1)"

definition zero_rng :: rng where
  "zero_rng n = 0"

definition late_rng :: rng where
  "late_rng n = (if n < 242 then 0 else 1)"

definition example_totals :: "real list" where
  "example_totals = [10, 20, 30, 40, 50]"

definition example_results_db :: database where
  "example_results_db =
     example_sim_db\<lparr> simulation_results :=
       [\<lparr> simulation_result.config_id = ''cfg-1'', n_total = Some 10, run_index = Some 0 \<rparr>,
        \<lparr> simulation_result.config_id = ''cfg-1'', n_total = None, run_index = Some 1 \<rparr>,
        \<lparr> simulation_result.config_id = ''cfg-1'', n_total = Some 20, run_index = Some 2 \<rparr>,
        \<lparr> simulation_result.config_id = ''cfg-1'', n_total = Some 30, run_index = Some 3 \<rparr>,
        \<lparr> simulation_result.config_id = ''cfg-1'', n_total = Some 40, run_index = Some 4 \<rparr>,
        \<lparr> simulation_result.config_id = ''cfg-1'', n_total = Some 50, run_index = Some 5 \<rparr>] \<rparr>"

definition example_null_db :: database where
  "example_null_db =
     example_sim_db\<lparr> simulation_results :=
       [\<lparr> simulation_result.config_id = ''cfg-1'', n_total = None, run_index = Some 0 \<rparr>] \<rparr>"

definition example_db_no_lab :: database where
  "example_db_no_lab = example_db\<lparr> lab_records := [] \<rparr>"

text \<open>The payload of a success response, and the keys of the posterior it reports.\<close>

definition success_value :: "'a response \<Rightarrow> 'a option" where
  "success_value r = (case r of Success v \<Rightarrow> Some v | Error msg \<Rightarrow> None)"

definition posterior_keys :: "update_success \<Rightarrow> string list" where
  "posterior_keys r = map fst (posterior r)"

section \<open>Properties of the forward pass\<close>

lemma ekf_loop_append:
  "ekf_loop a_r a_phi s_r s_phi s_lab y (xs @ ys) s =
     (case ekf_loop a_r a_phi s_r s_phi s_lab y xs s of
        Inl e \<Rightarrow> Inl e
      | Inr s' \<Rightarrow> ekf_loop a_r a_phi s_r s_phi s_lab y ys s')"
  by (induction xs arbitrary: s) simp_all

lemma ekf_loop_Suc:
  assumes "ekf_loop a_r a_phi s_r s_phi s_lab y [0..<k] s0 = Inr s" and "k < length y"
  shows "ekf_loop a_r a_phi s_r s_phi s_lab y [0..<Suc k] s0 =
           Inr (ekf_step a_r a_phi s_r s_phi s_lab s (y ! k))"
  using assms by (simp add: ekf_loop_append)

lemma ekf_step_belief:
  "belief_of (ekf_step a_r a_phi (max s_r eps) (max s_phi eps) (max s_lab eps) s y) =
     spec_update (a_r, a_phi, s_r, s_phi, s_lab) (belief_of s) y"
  by (simp add: belief_of_def ekf_step_def spec_update_def spec_innovation_def
      spec_innovation_cov_def Let_def)

lemma ekf_step_loglik:
  "log_likelihood (ekf_step a_r a_phi (max s_r eps) (max s_phi eps) (max s_lab eps) s y) =
     log_likelihood s +
       (let S = spec_innovation_cov (a_r, a_phi, s_r, s_phi, s_lab) (belief_of s);
            v = spec_innovation (a_r, a_phi, s_r, s_phi, s_lab) (belief_of s) y
        in - 0.5 * (ln (2 * pi * S) + v ^ 2 / S))"
  by (simp add: belief_of_def ekf_step_def spec_innovation_def spec_innovation_cov_def Let_def)

lemma ekf_loop_spec:
  assumes "k \<le> length y"
  shows "\<exists>s. ekf_loop a_r a_phi (max s_r eps) (max s_phi eps) (max s_lab eps) y [0..<k] s0 = Inr s
           \<and> belief_of s = spec_forward (a_r, a_phi, s_r, s_phi, s_lab) y (belief_of s0) k
           \<and> log_likelihood s = log_likelihood s0 +
                (\<Sum>j<k. spec_contribution (a_r, a_phi, s_r, s_phi, s_lab) y (belief_of s0) j)"
  using assms
proof (induction k)
  case 0
  then show ?case by simp
next
  case (Suc k)
  then obtain s where s: "ekf_loop a_r a_phi (max s_r eps) (max s_phi eps) (max s_lab eps) y [0..<k] s0 = Inr s"
    and b: "belief_of s = spec_forward (a_r, a_phi, s_r, s_phi, s_lab) y (belief_of s0) k"
    and l: "log_likelihood s = log_likelihood s0 +
                (\<Sum>j<k. spec_contribution (a_r, a_phi, s_r, s_phi, s_lab) y (belief_of s0) j)"
    by auto
  from Suc.prems have k: "k < length y" by simp
  let ?s' = "ekf_step a_r a_phi (max s_r eps) (max s_phi eps) (max s_lab eps) s (y ! k)"
  have "ekf_loop a_r a_phi (max s_r eps) (max s_phi eps) (max s_lab eps) y [0..<Suc k] s0 = Inr ?s'"
    by (rule ekf_loop_Suc [OF s k])
  moreover have "belief_of ?s' = spec_forward (a_r, a_phi, s_r, s_phi, s_lab) y (belief_of s0) (Suc k)"
    by (simp add: ekf_step_belief b)
  moreover have "log_likelihood ?s' = log_likelihood s0 +
                (\<Sum>j<Suc k. spec_contribution (a_r, a_phi, s_r, s_phi, s_lab) y (belief_of s0) j)"
    by (simp add: ekf_step_loglik l b spec_contribution_def Let_def)
  ultimately show ?case by blast
qed

text \<open>
  Claim C1. For every parameter vector and every lab observation sequence, the forward
  pass of the filter is the recursion of the specification: each step predicts
  \<open>eta_r_pred = eta_r + alpha_r\<close> and \<open>P_r_pred = P_r + sigma_r\<^sup>2\<close> (and the same for phi,
  which is only predicted), linearises with \<open>h = H = exp eta_r_pred\<close>, takes the innovation
  \<open>v = y_obs - h\<close>, its covariance \<open>S = H\<^sup>2 * P_r_pred + sigma_obs\<^sup>2\<close> and the gain
  \<open>K = H * P_r_pred / S\<close>, and corrects to \<open>eta_r_pred + K * v\<close> and \<open>(1 - K * H) * P_r_pred\<close>,
  with the noise scales floored at \<open>1e-6\<close>. The value returned is the negated sum of the
  contributions \<open>- 0.5 * (ln (2 * pi * S) + v\<^sup>2 / S)\<close>.
\<close>

theorem ekf_forward_pass_matches_spec:
  assumes "length time_points \<le> length y_lab"
  shows "extended_kalman_filter p time_points y_lab m_r v_r m_phi v_phi fin =
     (let b0 = \<lparr> b_eta_r = m_r, b_P_r = v_r, b_eta_phi = m_phi, b_P_phi = v_phi \<rparr>;
          n = length time_points;
          b = spec_forward p y_lab b0 n;
          nll = - (\<Sum>k<n. spec_contribution p y_lab b0 k)
      in Inr (if fin then FinalState nll (b_eta_r b) (b_eta_phi b) (b_P_r b) (b_P_phi b)
              else NegLL nll))"
proof -
  obtain a_r a_phi s_r s_phi s_lab where p: "p = (a_r, a_phi, s_r, s_phi, s_lab)"
    by (cases p) auto
  let ?s0 = "\<lparr> eta_r = m_r, eta_phi = m_phi, P_r = v_r, P_phi = v_phi, log_likelihood = 0 \<rparr>"
  let ?b0 = "\<lparr> b_eta_r = m_r, b_P_r = v_r, b_eta_phi = m_phi, b_P_phi = v_phi \<rparr>"
  have b0: "belief_of ?s0 = ?b0" by (simp add: belief_of_def)
  from ekf_loop_spec [OF assms, of a_r a_phi s_r s_phi s_lab ?s0]
  obtain s where s: "ekf_loop a_r a_phi (max s_r eps) (max s_phi eps) (max s_lab eps) y_lab
                       [0..<length time_points] ?s0 = Inr s"
    and b: "belief_of s = spec_forward p y_lab ?b0 (length time_points)"
    and l: "log_likelihood s = (\<Sum>j<length time_points. spec_contribution p y_lab ?b0 j)"
    unfolding b0 p by auto
  have run: "extended_kalman_filter p time_points y_lab m_r v_r m_phi v_phi fin =
      Inr (if fin then FinalState (- log_likelihood s) (eta_r s) (eta_phi s) (P_r s) (P_phi s)
           else NegLL (- log_likelihood s))"
    unfolding p by (simp add: extended_kalman_filter_def s Let_def)
  have fields: "b_eta_r (belief_of s) = eta_r s" "b_P_r (belief_of s) = P_r s"
    "b_eta_phi (belief_of s) = eta_phi s" "b_P_phi (belief_of s) = P_phi s"
    by (simp_all add: belief_of_def)
  show ?thesis
    unfolding run Let_def by (simp only: fields [unfolded b, symmetric] l)
qed


theorem ekf_forward_pass_matches_spec_witness:
  "length [1, 2 :: real] \<le> length [1 / 100, 18 / 1000 :: real]
   \<and> extended_kalman_filter (0, 0, 1 / 10, 1 / 10, 1 / 10) [1, 2] [1 / 100, 18 / 1000]
         0 1 0 1 True =
       (let b0 = \<lparr> b_eta_r = 0, b_P_r = 1, b_eta_phi = 0, b_P_phi = 1 \<rparr>;
            n = length [1, 2 :: real];
            b = spec_forward (0, 0, 1 / 10, 1 / 10, 1 / 10) [1 / 100, 18 / 1000] b0 n;
            nll = - (\<Sum>k<n. spec_contribution (0, 0, 1 / 10, 1 / 10, 1 / 10)
                                [1 / 100, 18 / 1000] b0 k)
        in Inr (if True then FinalState nll (b_eta_r b) (b_eta_phi b) (b_P_r b) (b_P_phi b)
                else NegLL nll))"
proof -
  have h: "length [1, 2 :: real] \<le> length [1 / 100, 18 / 1000 :: real]" by simp
  show ?thesis by (rule conjI [OF h ekf_forward_pass_matches_spec [OF h]])
qed

lemma eps_pos: "0 < eps"
  by (simp add: eps_def)

lemma ekf_step_P_r_nonneg:
  assumes "0 \<le> P_r s" and "0 < s_lab"
  shows "0 \<le> P_r (ekf_step a_r a_phi s_r s_phi s_lab s y)"
proof -
  define Pp where "Pp = P_r s + s_r ^ 2"
  define H where "H = exp (eta_r s + a_r)"
  define S where "S = H ^ 2 * Pp + s_lab ^ 2"
  have Pp: "0 \<le> Pp" using assms(1) by (simp add: Pp_def)
  have "0 \<le> H ^ 2 * Pp" using Pp by simp
  moreover have "0 < s_lab ^ 2" using assms(2) by simp
  ultimately have S: "0 < S" unfolding S_def by linarith
  have gain: "1 - (H * Pp / S) * H = s_lab ^ 2 / S"
    using S by (simp add: S_def field_simps power2_eq_square)
  have "0 \<le> s_lab ^ 2 / S" using S by simp
  then have "0 \<le> (s_lab ^ 2 / S) * Pp" using Pp by (rule mult_nonneg_nonneg)
  then have "0 \<le> (1 - (H * Pp / S) * H) * Pp" by (simp only: gain)
  then show ?thesis
    by (simp add: ekf_step_def Let_def Pp_def H_def S_def)
qed

lemma ekf_step_P_phi:
  "P_phi (ekf_step a_r a_phi s_r s_phi s_lab s y) = P_phi s + s_phi ^ 2"
  by (simp add: ekf_step_def Let_def)

lemma ekf_step_eta_phi:
  "eta_phi (ekf_step a_r a_phi s_r s_phi s_lab s y) = eta_phi s + a_phi"
  by (simp add: ekf_step_def Let_def)

lemma ekf_loop_variances:
  assumes "0 \<le> P_r s0" and "0 \<le> P_phi s0" and "0 < s_lab" and "k \<le> length y"
  shows "\<exists>s. ekf_loop a_r a_phi s_r s_phi s_lab y [0..<k] s0 = Inr s
           \<and> 0 \<le> P_r s \<and> 0 \<le> P_phi s"
  using assms(4)
proof (induction k)
  case 0
  then show ?case using assms by simp
next
  case (Suc k)
  then obtain s where s: "ekf_loop a_r a_phi s_r s_phi s_lab y [0..<k] s0 = Inr s"
    and nn: "0 \<le> P_r s" "0 \<le> P_phi s"
    by auto
  from Suc.prems have k: "k < length y" by simp
  have "0 \<le> P_r (ekf_step a_r a_phi s_r s_phi s_lab s (y ! k))"
    by (rule ekf_step_P_r_nonneg [OF nn(1) assms(3)])
  moreover have "0 \<le> P_phi (ekf_step a_r a_phi s_r s_phi s_lab s (y ! k))"
    using nn(2) by (simp add: ekf_step_P_phi)
  ultimately show ?case
    using ekf_loop_Suc [OF s k] by blast
qed

text \<open>
  Over the reals the variances are never negative: with initial variances that are not
  negative, \<open>P_r\<close> and \<open>P_phi\<close> are not negative after any number of steps of the forward
  pass, for every parameter vector and every observation sequence, since
  \<open>1 - K * H = sigma_lab\<^sup>2 / S\<close>. This is a property of the equations in exact arithmetic only,
  and does not carry over to the code (claim C6): in IEEE doubles \<open>K * H\<close> can round to a
  value above 1, and line 192 then yields a negative \<open>P_r\<close>. With
  \<^verbatim>\<open>params = [1, 0, 1, 0.1, 1e-6]\<close>, \<^verbatim>\<open>y_lab = [50, 0.01]\<close> and the priors of \<open>update_state\<close>
  (\<open>eta_r0_mean = log 50\<close>, \<open>eta_r0_var = 1\<close>) the second iteration has
  \<open>K * H = 1.0000000000000002\<close> and ends with \<open>P_r = -2.2204460492503136e-16\<close>.
\<close>

lemma ekf_variances_nonneg_over_reals:
  assumes "0 \<le> v_r" and "0 \<le> v_phi" and "length time_points \<le> length y_lab"
  shows "(\<forall>k \<le> length time_points.
            \<exists>s. ekf_loop a_r a_phi (max s_r eps) (max s_phi eps) (max s_lab eps) y_lab [0..<k]
                   \<lparr> eta_r = m_r, eta_phi = m_phi, P_r = v_r, P_phi = v_phi,
                     log_likelihood = 0 \<rparr> = Inr s
                 \<and> 0 \<le> P_r s \<and> 0 \<le> P_phi s)
       \<and> (\<exists>nll e_r e_phi var_r var_phi.
            extended_kalman_filter (a_r, a_phi, s_r, s_phi, s_lab) time_points y_lab
              m_r v_r m_phi v_phi True = Inr (FinalState nll e_r e_phi var_r var_phi)
            \<and> 0 \<le> var_r \<and> 0 \<le> var_phi)"
proof -
  let ?s0 = "\<lparr> eta_r = m_r, eta_phi = m_phi, P_r = v_r, P_phi = v_phi, log_likelihood = 0 \<rparr>"
  have lab: "0 < max s_lab eps" using eps_pos by simp
  have steps: "\<exists>s. ekf_loop a_r a_phi (max s_r eps) (max s_phi eps) (max s_lab eps) y_lab
                   [0..<k] ?s0 = Inr s \<and> 0 \<le> P_r s \<and> 0 \<le> P_phi s"
    if "k \<le> length time_points" for k
  proof (rule ekf_loop_variances)
    show "0 \<le> P_r ?s0" "0 \<le> P_phi ?s0" using assms by simp_all
    show "0 < max s_lab eps" by (rule lab)
    show "k \<le> length y_lab" using that assms(3) by simp
  qed
  from steps [of "length time_points"] obtain s where
    s: "ekf_loop a_r a_phi (max s_r eps) (max s_phi eps) (max s_lab eps) y_lab
          [0..<length time_points] ?s0 = Inr s"
    and nn: "0 \<le> P_r s" "0 \<le> P_phi s"
    by auto
  have "extended_kalman_filter (a_r, a_phi, s_r, s_phi, s_lab) time_points y_lab
          m_r v_r m_phi v_phi True
        = Inr (FinalState (- log_likelihood s) (eta_r s) (eta_phi s) (P_r s) (P_phi s))"
    by (simp add: extended_kalman_filter_def s Let_def)
  with nn steps show ?thesis by blast
qed

lemma ekf_loop_phi:
  assumes "k \<le> length y"
  shows "\<exists>s. ekf_loop a_r a_phi s_r s_phi s_lab y [0..<k] s0 = Inr s
           \<and> eta_phi s = eta_phi s0 + real k * a_phi
           \<and> P_phi s = P_phi s0 + real k * s_phi ^ 2"
  using assms
proof (induction k)
  case 0
  then show ?case by simp
next
  case (Suc k)
  then obtain s where s: "ekf_loop a_r a_phi s_r s_phi s_lab y [0..<k] s0 = Inr s"
    and e: "eta_phi s = eta_phi s0 + real k * a_phi"
    and v: "P_phi s = P_phi s0 + real k * s_phi ^ 2"
    by auto
  from Suc.prems have k: "k < length y" by simp
  have "eta_phi (ekf_step a_r a_phi s_r s_phi s_lab s (y ! k)) = eta_phi s0 + real (Suc k) * a_phi"
    by (simp add: ekf_step_eta_phi e algebra_simps)
  moreover have "P_phi (ekf_step a_r a_phi s_r s_phi s_lab s (y ! k))
                   = P_phi s0 + real (Suc k) * s_phi ^ 2"
    by (simp add: ekf_step_P_phi v algebra_simps)
  ultimately show ?case
    using ekf_loop_Suc [OF s k] by blast
qed

lemma ekf_final_phi:
  assumes "length time_points \<le> length y_lab"
  shows "\<exists>nll e_r var_r.
           extended_kalman_filter (a_r, a_phi, s_r, s_phi, s_lab) time_points y_lab
             m_r v_r m_phi v_phi True
           = Inr (FinalState nll e_r (m_phi + real (length time_points) * a_phi) var_r
                    (v_phi + real (length time_points) * (max s_phi eps) ^ 2))"
proof -
  let ?s0 = "\<lparr> eta_r = m_r, eta_phi = m_phi, P_r = v_r, P_phi = v_phi, log_likelihood = 0 \<rparr>"
  from ekf_loop_phi [OF assms, of a_r a_phi "max s_r eps" "max s_phi eps" "max s_lab eps" ?s0]
  obtain s where s: "ekf_loop a_r a_phi (max s_r eps) (max s_phi eps) (max s_lab eps) y_lab
          [0..<length time_points] ?s0 = Inr s"
    and e: "eta_phi s = m_phi + real (length time_points) * a_phi"
    and v: "P_phi s = v_phi + real (length time_points) * (max s_phi eps) ^ 2"
    by auto
  have "extended_kalman_filter (a_r, a_phi, s_r, s_phi, s_lab) time_points y_lab
          m_r v_r m_phi v_phi True
        = Inr (FinalState (- log_likelihood s) (eta_r s) (eta_phi s) (P_r s) (P_phi s))"
    by (simp add: extended_kalman_filter_def s Let_def)
  then show ?thesis unfolding e v by blast
qed

text \<open>
  Claim C7. The phi channel is never corrected by the observations: for two observation
  sequences of the same length \<open>n\<close>, the forward pass ends with the same \<open>eta_phi\<close> and
  \<open>P_phi\<close>, namely \<open>eta_phi0_mean + n * alpha_phi\<close> and
  \<open>eta_phi0_var + n * (max sigma_phi 1e-6)\<^sup>2\<close>, whatever was observed.
\<close>

theorem phi_channel_never_corrected:
  assumes "length times1 \<le> length y1" and "length times2 \<le> length y2"
    and "length times1 = n" and "length times2 = n"
  shows "\<exists>nll1 e_r1 var_r1 nll2 e_r2 var_r2.
           extended_kalman_filter (a_r, a_phi, s_r, s_phi, s_lab) times1 y1
             m_r v_r m_phi v_phi True
           = Inr (FinalState nll1 e_r1 (m_phi + real n * a_phi) var_r1
                    (v_phi + real n * (max s_phi (1 / 10 ^ 6)) ^ 2))
         \<and> extended_kalman_filter (a_r, a_phi, s_r, s_phi, s_lab) times2 y2
             m_r v_r m_phi v_phi True
           = Inr (FinalState nll2 e_r2 (m_phi + real n * a_phi) var_r2
                    (v_phi + real n * (max s_phi (1 / 10 ^ 6)) ^ 2))"
  using ekf_final_phi [OF assms(1), of a_r a_phi s_r s_phi s_lab m_r v_r m_phi v_phi]
    ekf_final_phi [OF assms(2), of a_r a_phi s_r s_phi s_lab m_r v_r m_phi v_phi]
  unfolding assms(3,4) eps_def by blast

theorem phi_channel_never_corrected_witness:
  "length [1, 2 :: real] \<le> length [1 / 100, 18 / 1000 :: real]
   \<and> length [1, 2 :: real] \<le> length [5, 7 :: real]
   \<and> length [1, 2 :: real] = 2
   \<and> (\<exists>nll1 e_r1 var_r1 nll2 e_r2 var_r2.
         extended_kalman_filter (0, 1 / 2, 1 / 10, 1 / 10, 1 / 10) [1, 2] [1 / 100, 18 / 1000]
           0 1 0 1 True
         = Inr (FinalState nll1 e_r1 (0 + real 2 * (1 / 2)) var_r1
                  (1 + real 2 * (max (1 / 10) (1 / 10 ^ 6)) ^ 2))
       \<and> extended_kalman_filter (0, 1 / 2, 1 / 10, 1 / 10, 1 / 10) [1, 2] [5, 7]
           0 1 0 1 True
         = Inr (FinalState nll2 e_r2 (0 + real 2 * (1 / 2)) var_r2
                  (1 + real 2 * (max (1 / 10) (1 / 10 ^ 6)) ^ 2)))"
proof -
  have h1: "length [1, 2 :: real] \<le> length [1 / 100, 18 / 1000 :: real]" by simp
  have h2: "length [1, 2 :: real] \<le> length [5, 7 :: real]" by simp
  have n: "length [1, 2 :: real] = 2" by simp
  from phi_channel_never_corrected [OF h1 h2 n n] h1 h2 n
  show ?thesis by blast
qed

section \<open>Properties of the fit\<close>

lemma example_final_state:
  "\<exists>nll e_r e_phi v_r v_phi.
     extended_kalman_filter (1 / 2, 0, 1 / 10, 1 / 10, 1 / 500) [1, 2] [1 / 100, 9 / 500]
       (prior_eta_r0_mean [1 / 100, 9 / 500]) 1 (prior_eta_phi0_mean []) 1 True
     = Inr (FinalState nll e_r e_phi v_r v_phi)"
  by (simp add: extended_kalman_filter_def Let_def upt_rec [of 0 2] upt_rec [of 1 2])

lemma example_update_state:
  "\<exists>r db'. update_state example_minimize 0 example_db ''cfg-1'' = (Success r, db')
     \<and> posterior_keys r =
         [''eta_r0_mean'', ''eta_r0_var'', ''eta_phi0_mean'', ''eta_phi0_var'',
          ''alpha_r'', ''alpha_phi'', ''sigma_r'', ''sigma_phi'']"
proof -
  have lab: "lab_records_of example_db ''cfg-1'' = lab_records example_db"
    by (simp add: lab_records_of_def example_db_def)
  have field: "field_records_of example_db ''cfg-1'' = []"
    by (simp add: field_records_of_def example_db_def)
  have cfg: "find_configuration example_db ''cfg-1'' = Some (hd (configurations example_db))"
    by (simp add: find_configuration_def example_db_def first_row_def)
  have labs: "lab_records example_db \<noteq> []"
    "map time_months (lab_records example_db) = [1, 2]"
    "map co2_uptake_t_per_t (lab_records example_db) = [1 / 100, 9 / 500]"
    by (simp_all add: example_db_def)
  from example_final_state obtain nll e_r e_phi v_r v_phi where
    fin: "extended_kalman_filter (1 / 2, 0, 1 / 10, 1 / 10, 1 / 500) [1, 2] [1 / 100, 9 / 500]
       (prior_eta_r0_mean [1 / 100, 9 / 500]) 1 (prior_eta_phi0_mean []) 1 True
     = Inr (FinalState nll e_r e_phi v_r v_phi)" by blast
  show ?thesis
    by (simp add: update_state_def cfg lab field labs fit_parameters_def example_minimize_def
        fin posterior_keys_def Let_def)
qed


lemma first_row_filter_update_first:
  assumes "\<And>r. P r \<Longrightarrow> P (f r)"
  shows "first_row (filter P (update_first P f rows)) = map_option f (first_row (filter P rows))"
  using assms by (induction rows) (auto simp: first_row_def)

lemma existing_posterior_stored:
  "\<exists>row. existing_posterior (store_posterior now cid m_r v_r m_phi v_phi a_r a_phi s_r s_phi db) cid
           = Some row
         \<and> eta_r0_mean row = Some m_r \<and> eta_r0_var row = Some v_r
         \<and> eta_phi0_mean row = Some m_phi \<and> eta_phi0_var row = Some v_phi
         \<and> alpha_r row = Some a_r \<and> alpha_phi row = Some a_phi
         \<and> sigma_r row = Some s_r \<and> sigma_phi row = Some s_phi"
proof (cases "existing_posterior db cid")
  case None
  then have "filter (\<lambda>r. state_posterior.config_id r = cid) (state_posteriors db) = []"
    by (simp add: existing_posterior_def first_row_def split: list.splits)
  then show ?thesis
    using None by (simp add: store_posterior_def existing_posterior_def first_row_def)
next
  case (Some row0)
  then show ?thesis
    by (simp add: store_posterior_def existing_posterior_def first_row_filter_update_first)
qed

text \<open>
  Claim C8, as amended. On every successful fit the posterior, both the row that is
  stored and the dictionary that is returned, carries the four latent-state values at
  the end of the forward pass and the fitted \<open>alpha_r\<close>, \<open>alpha_phi\<close>, \<open>sigma_r\<close> and
  \<open>sigma_phi\<close>. The fitted observation noise \<open>sigma_lab\<close> is not part of it.
\<close>

theorem posterior_carries_fitted_dynamics:
  assumes "update_state minimize now db cid = (Success r, db')"
  shows "\<exists>result a_r a_phi s_r s_phi s_lab nll e_r e_phi v_r v_phi row.
           fit_parameters minimize (lab_records_of db cid) (field_records_of db cid) = Inr result
         \<and> opt_success result
         \<and> opt_x result = (a_r, a_phi, s_r, s_phi, s_lab)
         \<and> extended_kalman_filter (opt_x result)
              (map time_months (lab_records_of db cid))
              (map co2_uptake_t_per_t (lab_records_of db cid))
              (prior_eta_r0_mean (map co2_uptake_t_per_t (lab_records_of db cid))) 1
              (prior_eta_phi0_mean (field_records_of db cid)) 1 True
             = Inr (FinalState nll e_r e_phi v_r v_phi)
         \<and> posterior r =
             [(''eta_r0_mean'', e_r), (''eta_r0_var'', v_r),
              (''eta_phi0_mean'', e_phi), (''eta_phi0_var'', v_phi),
              (''alpha_r'', a_r), (''alpha_phi'', a_phi),
              (''sigma_r'', s_r), (''sigma_phi'', s_phi)]
         \<and> existing_posterior db' cid = Some row
         \<and> eta_r0_mean row = Some e_r \<and> eta_r0_var row = Some v_r
         \<and> eta_phi0_mean row = Some e_phi \<and> eta_phi0_var row = Some v_phi
         \<and> alpha_r row = Some a_r \<and> alpha_phi row = Some a_phi
         \<and> sigma_r row = Some s_r \<and> sigma_phi row = Some s_phi"
proof -
  let ?lab = "lab_records_of db cid" and ?field = "field_records_of db cid"
  let ?ekf = "\<lambda>p. extended_kalman_filter p (map time_months ?lab) (map co2_uptake_t_per_t ?lab)
              (prior_eta_r0_mean (map co2_uptake_t_per_t ?lab)) 1 (prior_eta_phi0_mean ?field) 1 True"
  from assms obtain config where "find_configuration db cid = Some config"
    by (auto simp: update_state_def split: option.splits)
  with assms have lab: "?lab \<noteq> []"
    by (auto simp: update_state_def Let_def split: if_splits)
  with assms \<open>find_configuration db cid = Some config\<close>
  obtain result where fit: "fit_parameters minimize ?lab ?field = Inr result"
    by (auto simp: update_state_def Let_def split: sum.splits)
  with assms \<open>find_configuration db cid = Some config\<close> lab
  have ok: "opt_success result"
    by (auto simp: update_state_def Let_def split: if_splits)
  obtain a_r a_phi s_r s_phi s_lab where x: "opt_x result = (a_r, a_phi, s_r, s_phi, s_lab)"
    by (cases "opt_x result") auto
  from assms \<open>find_configuration db cid = Some config\<close> lab fit ok x
  obtain nll e_r e_phi v_r v_phi where fin: "?ekf (opt_x result) = Inr (FinalState nll e_r e_phi v_r v_phi)"
    by (auto simp: update_state_def Let_def split: sum.splits ekf_return.splits)
  from assms \<open>find_configuration db cid = Some config\<close> lab fit ok x fin
  have r: "posterior r =
             [(''eta_r0_mean'', e_r), (''eta_r0_var'', v_r),
              (''eta_phi0_mean'', e_phi), (''eta_phi0_var'', v_phi),
              (''alpha_r'', a_r), (''alpha_phi'', a_phi),
              (''sigma_r'', s_r), (''sigma_phi'', s_phi)]"
    and db': "db' = store_posterior now cid e_r v_r e_phi v_phi a_r a_phi s_r s_phi db"
    by (auto simp: update_state_def Let_def)
  from existing_posterior_stored [of now cid e_r v_r e_phi v_phi a_r a_phi s_r s_phi db]
  obtain row where "existing_posterior db' cid = Some row"
    "eta_r0_mean row = Some e_r" "eta_r0_var row = Some v_r"
    "eta_phi0_mean row = Some e_phi" "eta_phi0_var row = Some v_phi"
    "alpha_r row = Some a_r" "alpha_phi row = Some a_phi"
    "sigma_r row = Some s_r" "sigma_phi row = Some s_phi"
    unfolding db' by blast
  with fit ok x fin r show ?thesis by blast
qed

theorem posterior_carries_fitted_dynamics_witness:
  "update_state example_minimize 0 example_db ''cfg-1''
     = (Success (the (success_value (fst (update_state example_minimize 0 example_db ''cfg-1'')))),
        snd (update_state example_minimize 0 example_db ''cfg-1''))
   \<and> (\<exists>nll e_r e_phi v_r v_phi row.
         posterior (the (success_value (fst (update_state example_minimize 0 example_db ''cfg-1''))))
           = [(''eta_r0_mean'', e_r), (''eta_r0_var'', v_r),
              (''eta_phi0_mean'', e_phi), (''eta_phi0_var'', v_phi),
              (''alpha_r'', 1 / 2), (''alpha_phi'', 0),
              (''sigma_r'', 1 / 10), (''sigma_phi'', 1 / 10)]
       \<and> existing_posterior (snd (update_state example_minimize 0 example_db ''cfg-1'')) ''cfg-1''
           = Some row
       \<and> alpha_r row = Some (1 / 2) \<and> alpha_phi row = Some 0
       \<and> sigma_r row = Some (1 / 10) \<and> sigma_phi row = Some (1 / 10))"
proof -
  let ?u = "update_state example_minimize 0 example_db ''cfg-1''"
  from example_update_state obtain r0 db0 where u: "?u = (Success r0, db0)" by blast
  then have h: "?u = (Success (the (success_value (fst ?u))), snd ?u)"
    by (simp add: success_value_def)
  have lab: "lab_records_of example_db ''cfg-1'' = lab_records example_db"
    by (simp add: lab_records_of_def example_db_def)
  have fit: "fit_parameters example_minimize (lab_records_of example_db ''cfg-1'')
               (field_records_of example_db ''cfg-1'')
             = Inr \<lparr> opt_success = True, opt_message = ''CONVERGENCE'',
                     opt_x = (1 / 2, 0, 1 / 10, 1 / 10, 1 / 500), opt_nit = 12 \<rparr>"
    by (simp add: fit_parameters_def example_minimize_def Let_def)
  obtain result a_r a_phi s_r s_phi s_lab e_r e_phi v_r v_phi row where
    f: "fit_parameters example_minimize (lab_records_of example_db ''cfg-1'')
          (field_records_of example_db ''cfg-1'') = Inr result"
    and x: "opt_x result = (a_r, a_phi, s_r, s_phi, s_lab)"
    and post: "posterior (the (success_value (fst ?u)))
           = [(''eta_r0_mean'', e_r), (''eta_r0_var'', v_r),
              (''eta_phi0_mean'', e_phi), (''eta_phi0_var'', v_phi),
              (''alpha_r'', a_r), (''alpha_phi'', a_phi),
              (''sigma_r'', s_r), (''sigma_phi'', s_phi)]"
    and row: "existing_posterior (snd ?u) ''cfg-1'' = Some row"
    and fields: "alpha_r row = Some a_r" "alpha_phi row = Some a_phi"
      "sigma_r row = Some s_r" "sigma_phi row = Some s_phi"
    using posterior_carries_fitted_dynamics [OF h] by blast
  from f fit have "result = \<lparr> opt_success = True, opt_message = ''CONVERGENCE'',
                     opt_x = (1 / 2, 0, 1 / 10, 1 / 10, 1 / 500), opt_nit = 12 \<rparr>"
    by simp
  with x have vals: "a_r = 1 / 2" "a_phi = 0" "s_r = 1 / 10" "s_phi = 1 / 10"
    by simp_all
  from h post row fields show ?thesis unfolding vals by blast
qed

text \<open>
  Claim C8 as stated fails: the posterior of a successful fit has exactly eight
  entries, and none of them is the observation noise. The row \<open>state_posterior\<close> has no
  column for it either.
\<close>

theorem posterior_omits_sigma_obs_counterexample:
  "map_option posterior_keys
     (success_value (fst (update_state example_minimize 0 example_db ''cfg-1'')))
   = Some [''eta_r0_mean'', ''eta_r0_var'', ''eta_phi0_mean'', ''eta_phi0_var'',
           ''alpha_r'', ''alpha_phi'', ''sigma_r'', ''sigma_phi'']"
proof -
  from example_update_state obtain r db' where
    "update_state example_minimize 0 example_db ''cfg-1'' = (Success r, db')"
    "posterior_keys r =
         [''eta_r0_mean'', ''eta_r0_var'', ''eta_phi0_mean'', ''eta_phi0_var'',
          ''alpha_r'', ''alpha_phi'', ''sigma_r'', ''sigma_phi'']"
    by blast
  then show ?thesis by (simp add: success_value_def)
qed

lemma ekf_step_r_channel:
  assumes "r_channel s = r_channel s'"
  shows "r_channel (ekf_step a_r a_phi s_r s_phi s_lab s y)
           = r_channel (ekf_step a_r a_phi' s_r s_phi' s_lab s' y)"
  using assms by (simp add: r_channel_def ekf_step_def Let_def)

lemma ekf_loop_r_channel:
  assumes "r_channel s = r_channel s'"
  shows "map_sum id r_channel (ekf_loop a_r a_phi s_r s_phi s_lab y idx s)
           = map_sum id r_channel (ekf_loop a_r a_phi' s_r s_phi' s_lab y idx s')"
  using assms
proof (induction idx arbitrary: s s')
  case Nil
  then show ?case by simp
next
  case (Cons i idx)
  show ?case
  proof (cases "i < length y")
    case True
    from Cons.prems have "r_channel (ekf_step a_r a_phi s_r s_phi s_lab s (y ! i))
           = r_channel (ekf_step a_r a_phi' s_r s_phi' s_lab s' (y ! i))"
      by (rule ekf_step_r_channel)
    from Cons.IH [OF this] True show ?thesis by simp
  next
    case False
    then show ?thesis by simp
  qed
qed

lemma objective_ignores_phi_prior:
  "extended_kalman_filter p time_points y_lab m_r v_r m_phi v_phi False
     = extended_kalman_filter p time_points y_lab m_r v_r m_phi' v_phi' False"
proof -
  obtain a_r a_phi s_r s_phi s_lab where p: "p = (a_r, a_phi, s_r, s_phi, s_lab)"
    by (cases p) auto
  let ?s = "\<lparr> eta_r = m_r, eta_phi = m_phi, P_r = v_r, P_phi = v_phi, log_likelihood = 0 \<rparr>"
  let ?s' = "\<lparr> eta_r = m_r, eta_phi = m_phi', P_r = v_r, P_phi = v_phi', log_likelihood = 0 \<rparr>"
  let ?run = "\<lambda>s. ekf_loop a_r a_phi (max s_r eps) (max s_phi eps) (max s_lab eps) y_lab
                 [0..<length time_points] s"
  have "r_channel ?s = r_channel ?s'" by (simp add: r_channel_def)
  then have eq: "map_sum id r_channel (?run ?s) = map_sum id r_channel (?run ?s')"
    by (rule ekf_loop_r_channel)
  show ?thesis
  proof (cases "?run ?s")
    case (Inl e)
    with eq have "?run ?s' = Inl e" by (cases "?run ?s'") simp_all
    with Inl show ?thesis by (simp add: extended_kalman_filter_def p Let_def)
  next
    case (Inr s1)
    with eq obtain s2 where s2: "?run ?s' = Inr s2" and "r_channel s1 = r_channel s2"
      by (cases "?run ?s'") simp_all
    then have "log_likelihood s1 = log_likelihood s2" by (simp add: r_channel_def)
    with Inr s2 show ?thesis by (simp add: extended_kalman_filter_def p Let_def)
  qed
qed

lemma fit_parameters_ignores_field:
  "fit_parameters minimize lab field = fit_parameters minimize lab field'"
proof -
  have "(\<lambda>p. extended_kalman_filter p (map time_months lab) (map co2_uptake_t_per_t lab)
               (prior_eta_r0_mean (map co2_uptake_t_per_t lab)) 1 (prior_eta_phi0_mean field) 1 False)
      = (\<lambda>p. extended_kalman_filter p (map time_months lab) (map co2_uptake_t_per_t lab)
               (prior_eta_r0_mean (map co2_uptake_t_per_t lab)) 1 (prior_eta_phi0_mean field') 1 False)"
    by (rule ext) (rule objective_ignores_phi_prior)
  then show ?thesis by (simp add: fit_parameters_def Let_def)
qed

text \<open>
  Claim C9. For a configuration that exists, an empty lab observation sequence gives
  the error "No lab records found" whatever the optimiser is: neither the optimiser nor
  the filter contributes to the response, and the session is unchanged. An absent
  field observation sequence is not an error: when the optimiser succeeds the fit
  succeeds, with the phi prior 0. The field observations do not reach the optimiser's
  objective; they only set the phi prior.
\<close>

theorem empty_lab_records_is_an_error:
  assumes "find_configuration db cid = Some config"
  shows "(lab_records_of db cid = [] \<longrightarrow>
            (\<forall>minimize. update_state minimize now db cid
               = (Error (''No lab records found for configuration '' @ cid), db)))
       \<and> (lab_records_of db cid \<noteq> [] \<and> field_records_of db cid = []
            \<and> fit_parameters minimize (lab_records_of db cid) [] = Inr result
            \<and> opt_success result \<and> opt_x result = (a_r, a_phi, s_r, s_phi, s_lab) \<longrightarrow>
            (\<exists>r db'. update_state minimize now db cid = (Success r, db')
               \<and> data_field_records r = 0
               \<and> map_of (posterior r) ''eta_phi0_mean''
                   = Some (0 + real (length (lab_records_of db cid)) * a_phi)))
       \<and> (\<forall>field. fit_parameters minimize (lab_records_of db cid) field
                   = fit_parameters minimize (lab_records_of db cid) (field_records_of db cid))"
proof (intro conjI impI allI)
  fix minimize
  assume "lab_records_of db cid = []"
  with assms show "update_state minimize now db cid
               = (Error (''No lab records found for configuration '' @ cid), db)"
    by (simp add: update_state_def)
next
  assume a: "lab_records_of db cid \<noteq> [] \<and> field_records_of db cid = []
            \<and> fit_parameters minimize (lab_records_of db cid) [] = Inr result
            \<and> opt_success result \<and> opt_x result = (a_r, a_phi, s_r, s_phi, s_lab)"
  let ?lab = "lab_records_of db cid"
  have len: "length (map time_months ?lab) \<le> length (map co2_uptake_t_per_t ?lab)" by simp
  from ekf_final_phi [OF len, of a_r a_phi s_r s_phi s_lab
      "prior_eta_r0_mean (map co2_uptake_t_per_t ?lab)" 1 "prior_eta_phi0_mean []" 1]
  obtain nll e_r var_r where
    fin: "extended_kalman_filter (a_r, a_phi, s_r, s_phi, s_lab) (map time_months ?lab)
            (map co2_uptake_t_per_t ?lab) (prior_eta_r0_mean (map co2_uptake_t_per_t ?lab)) 1
            (prior_eta_phi0_mean []) 1 True
          = Inr (FinalState nll e_r (prior_eta_phi0_mean [] + real (length ?lab) * a_phi) var_r
                    (1 + real (length ?lab) * (max s_phi eps) ^ 2))"
    by auto
  have zero: "prior_eta_phi0_mean [] = 0" by (simp add: prior_eta_phi0_mean_def)
  from assms a fin show "\<exists>r db'. update_state minimize now db cid = (Success r, db')
               \<and> data_field_records r = 0
               \<and> map_of (posterior r) ''eta_phi0_mean''
                   = Some (0 + real (length (lab_records_of db cid)) * a_phi)"
    by (simp add: update_state_def Let_def zero)
next
  fix field
  show "fit_parameters minimize (lab_records_of db cid) field
                   = fit_parameters minimize (lab_records_of db cid) (field_records_of db cid)"
    by (rule fit_parameters_ignores_field)
qed

theorem empty_lab_records_is_an_error_witness:
  "find_configuration example_db_no_lab ''cfg-1''
     = Some \<lparr> configuration.config_id = ''cfg-1'', application_rate_t_ha = Some 10,
              chemistry_factor_K = Some (1 / 2) \<rparr>
   \<and> lab_records_of example_db_no_lab ''cfg-1'' = []
   \<and> update_state example_minimize 0 example_db_no_lab ''cfg-1''
       = (Error (''No lab records found for configuration '' @ ''cfg-1''), example_db_no_lab)
   \<and> lab_records_of example_db ''cfg-1'' \<noteq> []
   \<and> field_records_of example_db ''cfg-1'' = []
   \<and> (\<exists>r db'. update_state example_minimize 0 example_db ''cfg-1'' = (Success r, db')
         \<and> data_field_records r = 0
         \<and> map_of (posterior r) ''eta_phi0_mean''
             = Some (0 + real (length (lab_records_of example_db ''cfg-1'')) * 0))"
proof -
  let ?config = "\<lparr> configuration.config_id = ''cfg-1'', application_rate_t_ha = Some 10,
              chemistry_factor_K = Some (1 / 2) \<rparr>"
  have c1: "find_configuration example_db_no_lab ''cfg-1'' = Some ?config"
    by (simp add: find_configuration_def example_db_no_lab_def example_db_def first_row_def)
  have c2: "find_configuration example_db ''cfg-1'' = Some ?config"
    by (simp add: find_configuration_def example_db_def first_row_def)
  have l1: "lab_records_of example_db_no_lab ''cfg-1'' = []"
    by (simp add: lab_records_of_def example_db_no_lab_def)
  have l2: "lab_records_of example_db ''cfg-1'' \<noteq> []"
    by (simp add: lab_records_of_def example_db_def)
  have f2: "field_records_of example_db ''cfg-1'' = []"
    by (simp add: field_records_of_def example_db_def)
  have fit: "fit_parameters example_minimize (lab_records_of example_db ''cfg-1'') []
             = Inr \<lparr> opt_success = True, opt_message = ''CONVERGENCE'',
                     opt_x = (1 / 2, 0, 1 / 10, 1 / 10, 1 / 500), opt_nit = 12 \<rparr>"
    by (simp add: fit_parameters_def example_minimize_def Let_def)
  from empty_lab_records_is_an_error [OF c1, where now = 0] l1
  have e1: "update_state example_minimize 0 example_db_no_lab ''cfg-1''
       = (Error (''No lab records found for configuration '' @ ''cfg-1''), example_db_no_lab)"
    by blast
  from empty_lab_records_is_an_error [OF c2, where minimize = example_minimize
      and result = "\<lparr> opt_success = True, opt_message = ''CONVERGENCE'',
         opt_x = (1 / 2, 0, 1 / 10, 1 / 10, 1 / 500), opt_nit = 12 \<rparr>"
      and a_r = "1 / 2" and a_phi = 0 and s_r = "1 / 10" and s_phi = "1 / 10"
      and s_lab = "1 / 500" and now = 0] l2 f2 fit
  have e2: "\<exists>r db'. update_state example_minimize 0 example_db ''cfg-1'' = (Success r, db')
         \<and> data_field_records r = 0
         \<and> map_of (posterior r) ''eta_phi0_mean''
             = Some (0 + real (length (lab_records_of example_db ''cfg-1'')) * 0)"
    by simp
  from c1 l1 e1 l2 f2 e2 show ?thesis by blast
qed

section \<open>Properties of the simulation\<close>

lemma advance_0: "advance 0 g = g"
  by (simp add: advance_def)

lemma advance_advance: "advance a (advance b g) = advance (a + b) g"
  by (simp add: advance_def add.assoc)

lemma advance_Suc_Suc: "advance (Suc (Suc 0)) g = advance 2 g"
  by (simp add: advance_def)

lemma advance_apply: "advance k g n = g (n + k)"
  by (simp add: advance_def)

lemma agree_advance: "agree (k + n) g g' \<Longrightarrow> agree n (advance k g) (advance k g')"
  by (simp add: agree_def advance_def)

lemma agree_mono: "agree n g g' \<Longrightarrow> m \<le> n \<Longrightarrow> agree m g g'"
  by (simp add: agree_def)

lemma month_loop_Cons:
  assumes "0 \<le> i_sigma_r inp" and "0 \<le> i_sigma_phi inp"
  shows "month_loop inp (t # rest) (e_r, e_phi, N) g =
     (case apply_risk (i_risk_multipliers inp) t
             (i_A inp * i_K inp * exp (e_r + i_alpha_r inp + i_sigma_r inp * g 0)
                * expit (e_phi + i_alpha_phi inp + i_sigma_phi inp * g (Suc 0))) of
        Inl e \<Rightarrow> (Inl e, advance 2 g)
      | Inr N_t' \<Rightarrow>
          month_loop inp rest
            (e_r + i_alpha_r inp + i_sigma_r inp * g 0,
             e_phi + i_alpha_phi inp + i_sigma_phi inp * g (Suc 0), N[t := N_t'])
            (advance 2 g))"
proof -
  have two: "advance (Suc 0) (advance (Suc 0) g) = advance 2 g"
    by (simp add: advance_advance advance_Suc_Suc)
  have "random_normal 0 (i_sigma_r inp) g = (Inr (i_sigma_r inp * g 0), advance (Suc 0) g)"
    using assms(1) by (simp add: random_normal_def)
  moreover have "random_normal 0 (i_sigma_phi inp) (advance (Suc 0) g)
                   = (Inr (i_sigma_phi inp * g (Suc 0)), advance 2 g)"
    using assms(2) by (simp add: random_normal_def advance_apply two)
  ultimately show ?thesis
    by (simp add: Let_def)
qed

lemma month_loop_Cons_r_negative:
  assumes "i_sigma_r inp < 0"
  shows "month_loop inp (t # rest) (e_r, e_phi, N) g = (Inl ValueError, g)"
  using assms by (simp add: random_normal_def)

lemma month_loop_Cons_phi_negative:
  assumes "0 \<le> i_sigma_r inp" and "i_sigma_phi inp < 0"
  shows "month_loop inp (t # rest) (e_r, e_phi, N) g = (Inl ValueError, advance 1 g)"
  using assms by (simp add: random_normal_def Let_def)

lemma month_step_agree:
  assumes "agree 2 g g'"
  shows "(\<exists>e k. k \<le> 2 \<and> month_loop inp (t # rest) (e_r, e_phi, N) g = (Inl e, advance k g)
              \<and> month_loop inp (t # rest) (e_r, e_phi, N) g' = (Inl e, advance k g'))
       \<or> (\<exists>st. month_loop inp (t # rest) (e_r, e_phi, N) g = month_loop inp rest st (advance 2 g)
              \<and> month_loop inp (t # rest) (e_r, e_phi, N) g' = month_loop inp rest st (advance 2 g'))"
proof (cases "i_sigma_r inp < 0")
  case True
  then have "month_loop inp (t # rest) (e_r, e_phi, N) g = (Inl ValueError, advance 0 g)"
    "month_loop inp (t # rest) (e_r, e_phi, N) g' = (Inl ValueError, advance 0 g')"
    by (simp_all only: month_loop_Cons_r_negative advance_0)
  then show ?thesis by blast
next
  case False
  then have r: "0 \<le> i_sigma_r inp" by simp
  from assms have g0: "g' 0 = g 0" and g1: "g' (Suc 0) = g (Suc 0)"
    by (simp_all add: agree_def)
  show ?thesis
  proof (cases "i_sigma_phi inp < 0")
    case True
    have "month_loop inp (t # rest) (e_r, e_phi, N) g = (Inl ValueError, advance 1 g)"
      "month_loop inp (t # rest) (e_r, e_phi, N) g' = (Inl ValueError, advance 1 g')"
      by (simp_all only: month_loop_Cons_phi_negative [OF r True])
    moreover have "(1::nat) \<le> 2" by simp
    ultimately show ?thesis by blast
  next
    case False
    then have phi: "0 \<le> i_sigma_phi inp" by simp
    let ?e_r = "e_r + i_alpha_r inp + i_sigma_r inp * g 0"
    let ?e_phi = "e_phi + i_alpha_phi inp + i_sigma_phi inp * g (Suc 0)"
    let ?N_t = "i_A inp * i_K inp * exp ?e_r * expit ?e_phi"
    show ?thesis
    proof (cases "apply_risk (i_risk_multipliers inp) t ?N_t")
      case (Inl e)
      then have "month_loop inp (t # rest) (e_r, e_phi, N) g = (Inl e, advance 2 g)"
        "month_loop inp (t # rest) (e_r, e_phi, N) g' = (Inl e, advance 2 g')"
        by (simp_all add: month_loop_Cons [OF r phi] g0 g1 del: month_loop.simps)
      then show ?thesis by blast
    next
      case (Inr N_t')
      then have
        "month_loop inp (t # rest) (e_r, e_phi, N) g
           = month_loop inp rest (?e_r, ?e_phi, N[t := N_t']) (advance 2 g)"
        "month_loop inp (t # rest) (e_r, e_phi, N) g'
           = month_loop inp rest (?e_r, ?e_phi, N[t := N_t']) (advance 2 g')"
        by (simp_all add: month_loop_Cons [OF r phi] g0 g1 del: month_loop.simps)
      then show ?thesis by blast
    qed
  qed
qed

lemma month_loop_agree:
  assumes "agree (2 * length ts) g g'"
  shows "\<exists>k \<le> 2 * length ts. \<exists>v. month_loop inp ts st g = (v, advance k g)
           \<and> month_loop inp ts st g' = (v, advance k g')
           \<and> ((\<exists>w. v = Inr w) \<longrightarrow> k = 2 * length ts)"
  using assms
proof (induction ts arbitrary: st g g')
  case Nil
  have "month_loop inp [] st g = (Inr st, advance 0 g)"
    "month_loop inp [] st g' = (Inr st, advance 0 g')"
    by (simp_all add: advance_0)
  then show ?case by auto
next
  case (Cons t rest)
  obtain e_r e_phi N where st: "st = (e_r, e_phi, N)" by (cases st) auto
  from Cons.prems have a2: "agree 2 g g'" by (rule agree_mono) simp
  from Cons.prems have ar: "agree (2 * length rest) (advance 2 g) (advance 2 g')"
    by (intro agree_advance) simp
  from month_step_agree [OF a2, of inp t rest e_r e_phi N]
  show ?case
  proof
    assume "\<exists>e k. k \<le> 2 \<and> month_loop inp (t # rest) (e_r, e_phi, N) g = (Inl e, advance k g)
              \<and> month_loop inp (t # rest) (e_r, e_phi, N) g' = (Inl e, advance k g')"
    then obtain e k where "k \<le> 2"
      "month_loop inp (t # rest) st g = (Inl e, advance k g)"
      "month_loop inp (t # rest) st g' = (Inl e, advance k g')"
      unfolding st by blast
    then show ?thesis
      by (intro exI [of _ k] exI [of _ "Inl e"]) simp
  next
    assume "\<exists>st'. month_loop inp (t # rest) (e_r, e_phi, N) g = month_loop inp rest st' (advance 2 g)
              \<and> month_loop inp (t # rest) (e_r, e_phi, N) g' = month_loop inp rest st' (advance 2 g')"
    then obtain st' where
      s: "month_loop inp (t # rest) st g = month_loop inp rest st' (advance 2 g)"
         "month_loop inp (t # rest) st g' = month_loop inp rest st' (advance 2 g')"
      unfolding st by blast
    from Cons.IH [OF ar, of st'] obtain k v where k: "k \<le> 2 * length rest"
      and m: "month_loop inp rest st' (advance 2 g) = (v, advance k (advance 2 g))"
         "month_loop inp rest st' (advance 2 g') = (v, advance k (advance 2 g'))"
      and full: "(\<exists>w. v = Inr w) \<longrightarrow> k = 2 * length rest"
      by blast
    show ?thesis
    proof (intro exI [of _ "k + 2"] exI [of _ v] conjI)
      show "k + 2 \<le> 2 * length (t # rest)" using k by simp
      show "month_loop inp (t # rest) st g = (v, advance (k + 2) g)"
        by (simp only: s m advance_advance)
      show "month_loop inp (t # rest) st g' = (v, advance (k + 2) g')"
        by (simp only: s m advance_advance)
      show "(\<exists>w. v = Inr w) \<longrightarrow> k + 2 = 2 * length (t # rest)"
        using full by simp
    qed
  qed
qed


lemma single_run_start:
  assumes "0 \<le> sqrt (i_eta_r0_var inp)" and "0 \<le> sqrt (i_eta_phi0_var inp)"
  shows "single_run n inp g =
     (case month_loop inp [0..<n]
             (i_eta_r0_mean inp + sqrt (i_eta_r0_var inp) * g 0,
              i_eta_phi0_mean inp + sqrt (i_eta_phi0_var inp) * g (Suc 0),
              replicate n 0) (advance 2 g) of
        (Inl e, g3) \<Rightarrow> (Inl e, g3)
      | (Inr (e_r', e_phi', N), g3) \<Rightarrow> (Inr (sum_list N), g3))"
  using assms
  by (simp add: single_run_def random_normal_def advance_apply advance_advance advance_Suc_Suc)

lemma single_run_r_negative:
  assumes "sqrt (i_eta_r0_var inp) < 0"
  shows "single_run n inp g = (Inl ValueError, g)"
  using assms by (simp add: single_run_def random_normal_def)

lemma single_run_phi_negative:
  assumes "0 \<le> sqrt (i_eta_r0_var inp)" and "sqrt (i_eta_phi0_var inp) < 0"
  shows "single_run n inp g = (Inl ValueError, advance 1 g)"
  using assms by (simp add: single_run_def random_normal_def)

lemma single_run_agree:
  assumes "agree (draws_per_run n) g g'"
  shows "\<exists>k \<le> draws_per_run n. \<exists>v. single_run n inp g = (v, advance k g)
           \<and> single_run n inp g' = (v, advance k g')
           \<and> ((\<exists>w. v = Inr w) \<longrightarrow> k = draws_per_run n)"
proof (cases "sqrt (i_eta_r0_var inp) < 0")
  case True
  have "single_run n inp g = (Inl ValueError, advance 0 g)"
    "single_run n inp g' = (Inl ValueError, advance 0 g')"
    by (simp_all only: single_run_r_negative [OF True] advance_0)
  then show ?thesis by blast
next
  case False
  then have r: "0 \<le> sqrt (i_eta_r0_var inp)" by simp
  show ?thesis
  proof (cases "sqrt (i_eta_phi0_var inp) < 0")
    case True
    have "single_run n inp g = (Inl ValueError, advance 1 g)"
      "single_run n inp g' = (Inl ValueError, advance 1 g')"
      by (simp_all only: single_run_phi_negative [OF r True])
    moreover have "1 \<le> draws_per_run n" by (simp add: draws_per_run_def)
    ultimately show ?thesis by blast
  next
    case False
    then have phi: "0 \<le> sqrt (i_eta_phi0_var inp)" by simp
    from assms have g0: "g' 0 = g 0" and g1: "g' (Suc 0) = g (Suc 0)"
      by (simp_all add: agree_def draws_per_run_def)
    let ?st = "(i_eta_r0_mean inp + sqrt (i_eta_r0_var inp) * g 0,
              i_eta_phi0_mean inp + sqrt (i_eta_phi0_var inp) * g (Suc 0),
              replicate n (0::real))"
    from assms have "agree (2 * length [0..<n]) (advance 2 g) (advance 2 g')"
      by (intro agree_advance) (simp add: draws_per_run_def)
    from month_loop_agree [OF this, of inp ?st] obtain k v where
      k: "k \<le> 2 * n"
      and m: "month_loop inp [0..<n] ?st (advance 2 g) = (v, advance k (advance 2 g))"
        "month_loop inp [0..<n] ?st (advance 2 g') = (v, advance k (advance 2 g'))"
      and full: "(\<exists>w. v = Inr w) \<longrightarrow> k = 2 * n"
      by auto
    let ?out = "case v of Inl e \<Rightarrow> Inl e | Inr (e_r', e_phi', N) \<Rightarrow> Inr (sum_list N)"
    have "single_run n inp g = (?out, advance (k + 2) g)"
      by (simp add: single_run_start [OF r phi] m advance_advance split: sum.splits)
    moreover have "single_run n inp g' = (?out, advance (k + 2) g')"
      by (simp add: single_run_start [OF r phi] g0 g1 m advance_advance split: sum.splits)
    moreover have "k + 2 \<le> draws_per_run n" using k by (simp add: draws_per_run_def)
    moreover have "(\<exists>w. ?out = Inr w) \<longrightarrow> k + 2 = draws_per_run n"
      using full by (auto simp: draws_per_run_def split: sum.splits)
    ultimately show ?thesis by blast
  qed
qed

lemma agree_refl: "agree n g g"
  by (simp add: agree_def)

lemma single_run_consumes:
  assumes "single_run n inp g = (Inr v, g1)"
  shows "g1 = advance (draws_per_run n) g"
  using single_run_agree [OF agree_refl, where n = n and g = g and inp = inp] assms by auto

lemma run_loop_agree:
  assumes "agree (length runs * draws_per_run n) g g'"
  shows "\<exists>k \<le> length runs * draws_per_run n. \<exists>v.
           run_loop cid n inp runs acc g = (v, advance k g)
         \<and> run_loop cid n inp runs acc g' = (v, advance k g')
         \<and> ((\<exists>w. v = Inr w) \<longrightarrow> k = length runs * draws_per_run n)"
  using assms
proof (induction runs arbitrary: acc g g')
  case Nil
  have "run_loop cid n inp [] acc g = (Inr acc, advance 0 g)"
    "run_loop cid n inp [] acc g' = (Inr acc, advance 0 g')"
    by (simp_all add: advance_0)
  then show ?case by auto
next
  case (Cons run_i rest)
  let ?B = "draws_per_run n"
  obtain totals results where acc: "acc = (totals, results)" by (cases acc) auto
  from Cons.prems have "agree ?B g g'" by (rule agree_mono) simp
  from single_run_agree [OF this, of inp] obtain k v where k: "k \<le> ?B"
    and b: "single_run n inp g = (v, advance k g)" "single_run n inp g' = (v, advance k g')"
    and full: "(\<exists>w. v = Inr w) \<longrightarrow> k = ?B"
    by blast
  show ?case
  proof (cases v)
    case (Inl e)
    with b have "run_loop cid n inp (run_i # rest) acc g = (Inl e, advance k g)"
      "run_loop cid n inp (run_i # rest) acc g' = (Inl e, advance k g')"
      by (simp_all add: acc)
    moreover have "k \<le> length (run_i # rest) * ?B" using k by simp
    ultimately show ?thesis by blast
  next
    case (Inr tot)
    with full have kB: "k = ?B" by blast
    let ?acc = "(totals @ [tot],
             results @ [\<lparr> simulation_result.config_id = cid,
                          n_total = Some tot, run_index = Some run_i \<rparr>])"
    from Cons.prems have "agree (length rest * ?B) (advance ?B g) (advance ?B g')"
      by (intro agree_advance) simp
    from Cons.IH [OF this, of ?acc] obtain k' v' where k': "k' \<le> length rest * ?B"
      and r: "run_loop cid n inp rest ?acc (advance ?B g) = (v', advance k' (advance ?B g))"
        "run_loop cid n inp rest ?acc (advance ?B g') = (v', advance k' (advance ?B g'))"
      and full': "(\<exists>w. v' = Inr w) \<longrightarrow> k' = length rest * ?B"
      by blast
    from b Inr kB r have "run_loop cid n inp (run_i # rest) acc g = (v', advance (k' + ?B) g)"
      "run_loop cid n inp (run_i # rest) acc g' = (v', advance (k' + ?B) g')"
      by (simp_all add: acc advance_advance)
    moreover have "k' + ?B \<le> length (run_i # rest) * ?B" using k' by simp
    moreover have "(\<exists>w. v' = Inr w) \<longrightarrow> k' + ?B = length (run_i # rest) * ?B"
      using full' by simp
    ultimately show ?thesis by blast
  qed
qed


lemma run_loop_Inr:
  assumes "run_loop cid n inp runs (totals, results) g = (Inr (totals', results'), g')"
  shows "g' = advance (length runs * draws_per_run n) g
       \<and> totals' = totals @ map (\<lambda>j. projr (fst (single_run n inp (run_draws n g j))))
                               [0..<length runs]
       \<and> results' = results @
           map (\<lambda>j. \<lparr> simulation_result.config_id = cid,
                       n_total = Some (projr (fst (single_run n inp (run_draws n g j)))),
                       run_index = Some (runs ! j) \<rparr>) [0..<length runs]"
  using assms
proof (induction runs arbitrary: totals results g)
  case Nil
  then show ?case by (simp add: advance_0)
next
  case (Cons run_i rest)
  let ?B = "draws_per_run n"
  from Cons.prems obtain tot g1 where b: "single_run n inp g = (Inr tot, g1)"
    by (cases "single_run n inp g") (auto split: sum.splits)
  then have g1: "g1 = advance ?B g" by (rule single_run_consumes)
  let ?row = "\<lparr> simulation_result.config_id = cid, n_total = Some tot, run_index = Some run_i \<rparr>"
  from Cons.prems b g1
  have "run_loop cid n inp rest (totals @ [tot], results @ [?row]) (advance ?B g)
          = (Inr (totals', results'), g')"
    by simp
  from Cons.IH [OF this]
  have g': "g' = advance (length rest * ?B) (advance ?B g)"
    and t: "totals' = (totals @ [tot]) @
              map (\<lambda>j. projr (fst (single_run n inp (run_draws n (advance ?B g) j))))
                [0..<length rest]"
    and r: "results' = (results @ [?row]) @
              map (\<lambda>j. \<lparr> simulation_result.config_id = cid,
                       n_total = Some (projr (fst (single_run n inp (run_draws n (advance ?B g) j)))),
                       run_index = Some (rest ! j) \<rparr>) [0..<length rest]"
    by simp_all
  have shift: "run_draws n (advance ?B g) j = run_draws n g (Suc j)" for j
    by (simp add: run_draws_def advance_advance add.commute)
  have first: "run_draws n g 0 = g"
    by (simp add: run_draws_def advance_0)
  have tot: "projr (fst (single_run n inp g)) = tot" using b by simp
  show ?case
    by (simp add: g' t r shift advance_advance map_upt_Suc first tot add.commute
        del: upt_Suc)
qed

lemma spec_walk_shift:
  "spec_walk x0 a s w (Suc t) = spec_walk (x0 + a + s * w 0) a s (\<lambda>j. w (Suc j)) t"
  by (induction t) simp_all

lemma apply_risk_factor:
  assumes "risk_factor rm t = Some m"
  shows "apply_risk rm t v = Inr (v * m)"
  using assms
  by (auto simp: risk_factor_def apply_risk_def times_multiplier_def
      split: option.splits json.splits)

lemma month_loop_upt:
  assumes r: "0 \<le> i_sigma_r inp" and phi: "0 \<le> i_sigma_phi inp"
    and risk: "\<forall>t<n. risk_factor (i_risk_multipliers inp) t = Some (mult t)"
    and len: "n \<le> length N"
  shows "\<exists>e_r' e_phi' N'.
           month_loop inp [k..<n] (e_r, e_phi, N) g
             = (Inr (e_r', e_phi', N'), advance (2 * (n - k)) g)
         \<and> length N' = length N
         \<and> (\<forall>i < length N. N' ! i =
               (if k \<le> i \<and> i < n
                then i_A inp * i_K inp
                       * exp (spec_walk e_r (i_alpha_r inp) (i_sigma_r inp)
                                (\<lambda>j. g (2 * j)) (i - k))
                       * expit (spec_walk e_phi (i_alpha_phi inp) (i_sigma_phi inp)
                                  (\<lambda>j. g (Suc (2 * j))) (i - k))
                       * mult i
                else N ! i))"
  using len
proof (induction "n - k" arbitrary: k e_r e_phi N g)
  case 0
  then have nk: "n \<le> k" by simp
  then have "month_loop inp [k..<n] (e_r, e_phi, N) g = (Inr (e_r, e_phi, N), advance (2 * (n - k)) g)"
    by (simp add: advance_0)
  moreover have "N ! i = (if k \<le> i \<and> i < n
                then i_A inp * i_K inp
                       * exp (spec_walk e_r (i_alpha_r inp) (i_sigma_r inp)
                                (\<lambda>j. g (2 * j)) (i - k))
                       * expit (spec_walk e_phi (i_alpha_phi inp) (i_sigma_phi inp)
                                  (\<lambda>j. g (Suc (2 * j))) (i - k))
                       * mult i
                else N ! i)" for i
    using nk by simp
  ultimately show ?case by blast
next
  case (Suc d)
  then have kn: "k < n" by simp
  then have upt: "[k..<n] = k # [Suc k..<n]" by (rule upt_conv_Cons)
  let ?e_r = "e_r + i_alpha_r inp + i_sigma_r inp * g 0"
  let ?e_phi = "e_phi + i_alpha_phi inp + i_sigma_phi inp * g (Suc 0)"
  let ?N_t = "i_A inp * i_K inp * exp ?e_r * expit ?e_phi"
  let ?N1 = "N[k := ?N_t * mult k]"
  from risk kn have "risk_factor (i_risk_multipliers inp) k = Some (mult k)" by simp
  then have ar: "apply_risk (i_risk_multipliers inp) k ?N_t = Inr (?N_t * mult k)"
    by (rule apply_risk_factor)
  have step: "month_loop inp [k..<n] (e_r, e_phi, N) g
                = month_loop inp [Suc k..<n] (?e_r, ?e_phi, ?N1) (advance 2 g)"
    unfolding upt by (simp add: month_loop_Cons [OF r phi] ar del: month_loop.simps)
  from Suc.hyps have d: "d = n - Suc k" by simp
  from Suc.prems have len1: "n \<le> length ?N1" by simp
  from Suc.hyps(1) [OF d len1, of ?e_r ?e_phi "advance 2 g"]
  obtain e_r' e_phi' N' where
    run: "month_loop inp [Suc k..<n] (?e_r, ?e_phi, ?N1) (advance 2 g)
            = (Inr (e_r', e_phi', N'), advance (2 * (n - Suc k)) (advance 2 g))"
    and l: "length N' = length ?N1"
    and nth: "\<forall>i < length ?N1. N' ! i =
               (if Suc k \<le> i \<and> i < n
                then i_A inp * i_K inp
                       * exp (spec_walk ?e_r (i_alpha_r inp) (i_sigma_r inp)
                                (\<lambda>j. advance 2 g (2 * j)) (i - Suc k))
                       * expit (spec_walk ?e_phi (i_alpha_phi inp) (i_sigma_phi inp)
                                  (\<lambda>j. advance 2 g (Suc (2 * j))) (i - Suc k))
                       * mult i
                else ?N1 ! i)"
    by blast
  have "2 * (n - Suc k) + 2 = 2 * (n - k)" using kn by simp
  then have adv: "advance (2 * (n - Suc k)) (advance 2 g) = advance (2 * (n - k)) g"
    by (simp only: advance_advance)
  have wr: "spec_walk ?e_r (i_alpha_r inp) (i_sigma_r inp) (\<lambda>j. advance 2 g (2 * j)) (i - Suc k)
            = spec_walk e_r (i_alpha_r inp) (i_sigma_r inp) (\<lambda>j. g (2 * j)) (i - k)"
    if "Suc k \<le> i" for i
  proof -
    from that have eq: "i - k = Suc (i - Suc k)" by simp
    have f: "(\<lambda>j. advance 2 g (2 * j)) = (\<lambda>j. g (2 * Suc j))"
      by (simp add: advance_apply fun_eq_iff)
    have z: "g 0 = g (2 * 0)" by simp
    show ?thesis
      unfolding eq f
      by (subst z, rule spec_walk_shift [of e_r _ _ "\<lambda>j. g (2 * j)", symmetric])
  qed
  have wphi: "spec_walk ?e_phi (i_alpha_phi inp) (i_sigma_phi inp)
                (\<lambda>j. advance 2 g (Suc (2 * j))) (i - Suc k)
            = spec_walk e_phi (i_alpha_phi inp) (i_sigma_phi inp) (\<lambda>j. g (Suc (2 * j))) (i - k)"
    if "Suc k \<le> i" for i
  proof -
    from that have eq: "i - k = Suc (i - Suc k)" by simp
    have f: "(\<lambda>j. advance 2 g (Suc (2 * j))) = (\<lambda>j. g (Suc (2 * Suc j)))"
      by (simp add: advance_apply fun_eq_iff)
    have z: "g (Suc 0) = g (Suc (2 * 0))" by simp
    show ?thesis
      unfolding eq f
      by (subst z, rule spec_walk_shift [of e_phi _ _ "\<lambda>j. g (Suc (2 * j))", symmetric])
  qed
  have "N' ! i =
               (if k \<le> i \<and> i < n
                then i_A inp * i_K inp
                       * exp (spec_walk e_r (i_alpha_r inp) (i_sigma_r inp)
                                (\<lambda>j. g (2 * j)) (i - k))
                       * expit (spec_walk e_phi (i_alpha_phi inp) (i_sigma_phi inp)
                                  (\<lambda>j. g (Suc (2 * j))) (i - k))
                       * mult i
                else N ! i)" if i: "i < length N" for i
  proof (cases "Suc k \<le> i")
    case True
    with nth i show ?thesis by (simp add: wr wphi)
  next
    case False
    show ?thesis
    proof (cases "i = k")
      case True
      with nth i kn show ?thesis by simp
    next
      case ne: False
      with False have "i < k" by simp
      with nth i show ?thesis by simp
    qed
  qed
  moreover have "month_loop inp [k..<n] (e_r, e_phi, N) g
                   = (Inr (e_r', e_phi', N'), advance (2 * (n - k)) g)"
    by (simp only: step run adv)
  moreover have "length N' = length N" using l by simp
  ultimately show ?case by blast
qed


lemma single_run_total:
  assumes noise: "0 \<le> i_sigma_r inp" "0 \<le> i_sigma_phi inp"
    and var: "0 \<le> i_eta_r0_var inp" "0 \<le> i_eta_phi0_var inp"
    and risk: "\<forall>t<n. risk_factor (i_risk_multipliers inp) t = Some (mult t)"
  shows "single_run n inp g = (Inr (spec_total n inp mult g), advance (draws_per_run n) g)"
proof -
  let ?e_r = "i_eta_r0_mean inp + sqrt (i_eta_r0_var inp) * g 0"
  let ?e_phi = "i_eta_phi0_mean inp + sqrt (i_eta_phi0_var inp) * g (Suc 0)"
  have sq: "0 \<le> sqrt (i_eta_r0_var inp)" "0 \<le> sqrt (i_eta_phi0_var inp)"
    using var by simp_all
  have len: "n \<le> length (replicate n (0::real))" by simp
  from month_loop_upt [OF noise risk len, of 0 ?e_r ?e_phi "advance 2 g"]
  obtain e_r' e_phi' N' where
    run: "month_loop inp [0..<n] (?e_r, ?e_phi, replicate n 0) (advance 2 g)
            = (Inr (e_r', e_phi', N'), advance (2 * n) (advance 2 g))"
    and l: "length N' = n"
    and nth: "\<forall>i<n. N' ! i =
                i_A inp * i_K inp
                  * exp (spec_walk ?e_r (i_alpha_r inp) (i_sigma_r inp)
                           (\<lambda>j. advance 2 g (2 * j)) i)
                  * expit (spec_walk ?e_phi (i_alpha_phi inp) (i_sigma_phi inp)
                             (\<lambda>j. advance 2 g (Suc (2 * j))) i)
                  * mult i"
    by auto
  have "2 * j + 2 = 2 + 2 * j" for j :: nat by simp
  then have f1: "(\<lambda>j. advance 2 g (2 * j)) = (\<lambda>j. g (2 + 2 * j))"
    by (simp only: advance_apply)
  have "Suc (2 * j) + 2 = 3 + 2 * j" for j :: nat by simp
  then have f2: "(\<lambda>j. advance 2 g (Suc (2 * j))) = (\<lambda>j. g (3 + 2 * j))"
    by (simp only: advance_apply)
  have one: "g (Suc 0) = g 1" by simp
  have "N' ! i = spec_N inp mult g i" if "i < n" for i
    using nth that unfolding f1 f2 one by (simp add: spec_N_def expit_def)
  then have "sum_list N' = (\<Sum>i<n. spec_N inp mult g i)"
    by (simp add: sum_list_sum_nth l atLeast0LessThan)
  then have tot: "sum_list N' = spec_total n inp mult g"
    by (simp add: spec_total_def)
  have adv: "advance (2 * n) (advance 2 g) = advance (draws_per_run n) g"
    by (simp add: advance_advance draws_per_run_def add.commute)
  show ?thesis
    by (simp add: single_run_start [OF sq] run tot adv)
qed

lemma run_loop_succeeds:
  assumes "\<And>g. \<exists>v g1. single_run n inp g = (Inr v, g1)"
  shows "\<exists>acc' g'. run_loop cid n inp runs acc g = (Inr acc', g')"
proof (induction runs arbitrary: acc g)
  case Nil
  then show ?case by simp
next
  case (Cons run_i rest)
  obtain totals results where acc: "acc = (totals, results)" by (cases acc) auto
  from assms [of g] obtain v g1 where "single_run n inp g = (Inr v, g1)" by blast
  with Cons.IH show ?case by (simp add: acc)
qed

lemma summary_of_nonempty:
  assumes "totals \<noteq> []"
  shows "\<exists>sm. summary_of totals = Inr sm"
  using assms by (cases totals) (simp_all add: summary_of_def np_min_def np_max_def)

lemma load_inputs_Inr:
  assumes "load_inputs db cid risk_profile = Inr inp"
  shows "\<exists>config post.
           find_configuration db cid = Some config
         \<and> latest_posterior db cid = Some post
         \<and> load_risk db risk_profile = Inr (Inr (i_risk_multipliers inp))
         \<and> application_rate_t_ha config = Some (i_A inp)
         \<and> chemistry_factor_K config = Some (i_K inp)
         \<and> eta_r0_mean post = Some (i_eta_r0_mean inp)
         \<and> eta_r0_var post = Some (i_eta_r0_var inp)
         \<and> eta_phi0_mean post = Some (i_eta_phi0_mean inp)
         \<and> eta_phi0_var post = Some (i_eta_phi0_var inp)
         \<and> alpha_r post = Some (i_alpha_r inp)
         \<and> alpha_phi post = Some (i_alpha_phi inp)
         \<and> sigma_r post = Some (i_sigma_r inp)
         \<and> sigma_phi post = Some (i_sigma_phi inp)"
  using assms
  by (auto simp: load_inputs_def split: option.splits sum.splits)

text \<open>
  Claim C3. With the horizon of 120 months, every run's recorded total is the sum over
  the months \<open>t = 0..119\<close> of \<open>N_t = A * K * exp eta_r * logistic eta_phi\<close>, times the resolved
  multiplier of the month when there is a risk source, where both channels start from
  the state sampled from the posterior (mean plus standard deviation times a variate)
  and advance each month by their drift plus their noise scale times a fresh variate.
  The totals are returned in the order of the runs, and each is stored with its run
  index. The inputs are those of the configuration, the most recent posterior and the
  risk profile.
\<close>

theorem simulate_totals_follow_model:
  assumes load: "load_inputs db cid risk_profile = Inr inp"
    and months: "SIMULATION_MONTHS cs = 120"
    and noise: "0 \<le> i_sigma_r inp" "0 \<le> i_sigma_phi inp"
    and var: "0 \<le> i_eta_r0_var inp" "0 \<le> i_eta_phi0_var inp"
    and risk: "\<forall>t<120. risk_factor (i_risk_multipliers inp) t = Some (mult t)"
    and runs: "0 < nruns"
  shows "(\<exists>sm. simulate cs db g cid nruns risk_profile =
           (Success \<lparr> simulate_success.config_id = cid, n_runs = nruns,
                      n_totals = map (\<lambda>i. \<Sum>t<120. spec_N inp mult (run_draws 120 g i) t)
                                   [0..<nat nruns],
                      summary = sm, risk_profile_id = truthy_id risk_profile \<rparr>,
            db\<lparr> simulation_results := simulation_results db @
                  map (\<lambda>i. \<lparr> simulation_result.config_id = cid,
                              n_total = Some (\<Sum>t<120. spec_N inp mult (run_draws 120 g i) t),
                              run_index = Some i \<rparr>) [0..<nat nruns] \<rparr>,
            advance (nat nruns * 242) g))
       \<and> (\<exists>config post.
             find_configuration db cid = Some config
           \<and> latest_posterior db cid = Some post
           \<and> load_risk db risk_profile = Inr (Inr (i_risk_multipliers inp))
           \<and> application_rate_t_ha config = Some (i_A inp)
           \<and> chemistry_factor_K config = Some (i_K inp)
           \<and> eta_r0_mean post = Some (i_eta_r0_mean inp)
           \<and> eta_r0_var post = Some (i_eta_r0_var inp)
           \<and> eta_phi0_mean post = Some (i_eta_phi0_mean inp)
           \<and> eta_phi0_var post = Some (i_eta_phi0_var inp)
           \<and> alpha_r post = Some (i_alpha_r inp)
           \<and> alpha_phi post = Some (i_alpha_phi inp)
           \<and> sigma_r post = Some (i_sigma_r inp)
           \<and> sigma_phi post = Some (i_sigma_phi inp))"
proof
  have body: "single_run 120 inp h = (Inr (spec_total 120 inp mult h), advance (draws_per_run 120) h)"
    for h by (rule single_run_total [OF noise var risk])
  then have "\<exists>v g1. single_run 120 inp h = (Inr v, g1)" for h by blast
  from run_loop_succeeds [OF this, of cid "[0..<nat nruns]" "([], [])" g]
  obtain totals results g' where
    run: "run_loop cid 120 inp [0..<nat nruns] ([], []) g = (Inr (totals, results), g')"
    by auto
  from run_loop_Inr [OF run]
  have g': "g' = advance (nat nruns * 242) g"
    and totals: "totals = map (\<lambda>i. \<Sum>t<120. spec_N inp mult (run_draws 120 g i) t) [0..<nat nruns]"
    and results: "results = map (\<lambda>i. \<lparr> simulation_result.config_id = cid,
                              n_total = Some (\<Sum>t<120. spec_N inp mult (run_draws 120 g i) t),
                              run_index = Some i \<rparr>) [0..<nat nruns]"
    by (simp_all add: body spec_total_def draws_per_run_def cong: map_cong)
  from runs have "totals \<noteq> []" by (simp add: totals)
  then obtain sm where sm: "summary_of totals = Inr sm"
    using summary_of_nonempty by blast
  have "simulate cs db g cid nruns risk_profile =
           (Success \<lparr> simulate_success.config_id = cid, n_runs = nruns,
                      n_totals = totals, summary = sm,
                      risk_profile_id = truthy_id risk_profile \<rparr>,
            db\<lparr> simulation_results := simulation_results db @ results \<rparr>, g')"
    by (simp add: simulate_def load months run sm)
  then show "\<exists>sm. simulate cs db g cid nruns risk_profile =
           (Success \<lparr> simulate_success.config_id = cid, n_runs = nruns,
                      n_totals = map (\<lambda>i. \<Sum>t<120. spec_N inp mult (run_draws 120 g i) t)
                                   [0..<nat nruns],
                      summary = sm, risk_profile_id = truthy_id risk_profile \<rparr>,
            db\<lparr> simulation_results := simulation_results db @
                  map (\<lambda>i. \<lparr> simulation_result.config_id = cid,
                              n_total = Some (\<Sum>t<120. spec_N inp mult (run_draws 120 g i) t),
                              run_index = Some i \<rparr>) [0..<nat nruns] \<rparr>,
            advance (nat nruns * 242) g)"
    unfolding g' totals results by blast
next
  show "\<exists>config post.
             find_configuration db cid = Some config
           \<and> latest_posterior db cid = Some post
           \<and> load_risk db risk_profile = Inr (Inr (i_risk_multipliers inp))
           \<and> application_rate_t_ha config = Some (i_A inp)
           \<and> chemistry_factor_K config = Some (i_K inp)
           \<and> eta_r0_mean post = Some (i_eta_r0_mean inp)
           \<and> eta_r0_var post = Some (i_eta_r0_var inp)
           \<and> eta_phi0_mean post = Some (i_eta_phi0_mean inp)
           \<and> eta_phi0_var post = Some (i_eta_phi0_var inp)
           \<and> alpha_r post = Some (i_alpha_r inp)
           \<and> alpha_phi post = Some (i_alpha_phi inp)
           \<and> sigma_r post = Some (i_sigma_r inp)
           \<and> sigma_phi post = Some (i_sigma_phi inp)"
    by (rule load_inputs_Inr [OF load])
qed

lemma apply_risk_Inr:
  assumes "apply_risk rm t v = Inr w"
  shows "\<exists>m. risk_factor rm t = Some m"
  using assms
  by (auto simp: risk_factor_def apply_risk_def times_multiplier_def
      split: option.splits json.splits)

lemma month_loop_Inr_noise:
  assumes "month_loop inp (t # rest) (e_r, e_phi, N) g = (Inr w, g')"
  shows "0 \<le> i_sigma_r inp \<and> 0 \<le> i_sigma_phi inp"
proof (rule ccontr)
  assume "\<not> (0 \<le> i_sigma_r inp \<and> 0 \<le> i_sigma_phi inp)"
  then consider "i_sigma_r inp < 0" | "0 \<le> i_sigma_r inp" "i_sigma_phi inp < 0"
    by fastforce
  then show False
  proof cases
    case 1
    from month_loop_Cons_r_negative [OF 1, of t rest e_r e_phi N g] assms show False by simp
  next
    case 2
    from month_loop_Cons_phi_negative [OF 2, of t rest e_r e_phi N g] assms show False by simp
  qed
qed

lemma month_loop_Inr_risk:
  assumes r: "0 \<le> i_sigma_r inp" and phi: "0 \<le> i_sigma_phi inp"
    and run: "month_loop inp ts st g = (Inr w, g')"
  shows "\<forall>t \<in> set ts. \<exists>m. risk_factor (i_risk_multipliers inp) t = Some m"
  using run
proof (induction ts arbitrary: st g)
  case Nil
  then show ?case by simp
next
  case (Cons t rest)
  obtain e_r e_phi N where st: "st = (e_r, e_phi, N)" by (cases st) auto
  let ?e_r = "e_r + i_alpha_r inp + i_sigma_r inp * g 0"
  let ?e_phi = "e_phi + i_alpha_phi inp + i_sigma_phi inp * g (Suc 0)"
  let ?N_t = "i_A inp * i_K inp * exp ?e_r * expit ?e_phi"
  show ?case
  proof (cases "apply_risk (i_risk_multipliers inp) t ?N_t")
    case (Inl e)
    then have "month_loop inp (t # rest) (e_r, e_phi, N) g = (Inl e, advance 2 g)"
      by (simp add: month_loop_Cons [OF r phi] del: month_loop.simps)
    with Cons.prems show ?thesis by (simp add: st)
  next
    case (Inr N_t')
    then have step: "month_loop inp (t # rest) (e_r, e_phi, N) g
        = month_loop inp rest (?e_r, ?e_phi, N[t := N_t']) (advance 2 g)"
      by (simp add: month_loop_Cons [OF r phi] del: month_loop.simps)
    with Cons.prems have "month_loop inp rest (?e_r, ?e_phi, N[t := N_t']) (advance 2 g) = (Inr w, g')"
      by (simp add: st)
    from Cons.IH [OF this]
    have "\<forall>t \<in> set rest. \<exists>m. risk_factor (i_risk_multipliers inp) t = Some m" .
    moreover from apply_risk_Inr [OF Inr]
    have "\<exists>m. risk_factor (i_risk_multipliers inp) t = Some m" .
    ultimately show ?thesis by simp
  qed
qed

lemma single_run_months_0:
  assumes "0 \<le> i_eta_r0_var inp" and "0 \<le> i_eta_phi0_var inp"
  shows "single_run 0 inp g = (Inr (spec_total 0 inp mult g), advance (draws_per_run 0) g)"
proof -
  have sq: "0 \<le> sqrt (i_eta_r0_var inp)" "0 \<le> sqrt (i_eta_phi0_var inp)"
    using assms by simp_all
  show ?thesis
    by (simp add: single_run_start [OF sq] spec_total_def draws_per_run_def)
qed

lemma single_run_Inr_conditions:
  assumes var: "0 \<le> i_eta_r0_var inp" "0 \<le> i_eta_phi0_var inp"
    and run: "single_run n inp g = (Inr v, g1)"
    and n: "0 < n"
  shows "0 \<le> i_sigma_r inp \<and> 0 \<le> i_sigma_phi inp
       \<and> (\<forall>t<n. \<exists>m. risk_factor (i_risk_multipliers inp) t = Some m)"
proof -
  have sq: "0 \<le> sqrt (i_eta_r0_var inp)" "0 \<le> sqrt (i_eta_phi0_var inp)"
    using var by simp_all
  let ?st = "(i_eta_r0_mean inp + sqrt (i_eta_r0_var inp) * g 0,
              i_eta_phi0_mean inp + sqrt (i_eta_phi0_var inp) * g (Suc 0),
              replicate n (0::real))"
  from run obtain w g3 where m: "month_loop inp [0..<n] ?st (advance 2 g) = (Inr w, g3)"
    by (cases "month_loop inp [0..<n] ?st (advance 2 g)")
      (auto simp: single_run_start [OF sq] split: sum.splits)
  from n have upt: "[0..<n] = 0 # [Suc 0..<n]" by (rule upt_conv_Cons)
  from m have "month_loop inp (0 # [Suc 0..<n]) ?st (advance 2 g) = (Inr w, g3)"
    by (simp only: upt)
  then have noise: "0 \<le> i_sigma_r inp \<and> 0 \<le> i_sigma_phi inp"
    by (rule month_loop_Inr_noise)
  then have r: "0 \<le> i_sigma_r inp" and phi: "0 \<le> i_sigma_phi inp" by simp_all
  from month_loop_Inr_risk [OF r phi m]
  have "\<forall>t<n. \<exists>m. risk_factor (i_risk_multipliers inp) t = Some m" by simp
  with noise show ?thesis by simp
qed

lemma single_run_success_total:
  assumes var: "0 \<le> i_eta_r0_var inp" "0 \<le> i_eta_phi0_var inp"
    and run: "single_run n inp g = (Inr v, g1)"
  shows "single_run n inp h
           = (Inr (spec_total n inp (\<lambda>t. the (risk_factor (i_risk_multipliers inp) t)) h),
              advance (draws_per_run n) h)"
proof (cases "n = 0")
  case True
  then show ?thesis using single_run_months_0 [OF var] by simp
next
  case False
  then have n: "0 < n" by simp
  from single_run_Inr_conditions [OF var run n]
  have noise: "0 \<le> i_sigma_r inp" "0 \<le> i_sigma_phi inp"
    and risk: "\<forall>t<n. \<exists>m. risk_factor (i_risk_multipliers inp) t = Some m"
    by simp_all
  from risk have "\<forall>t<n. risk_factor (i_risk_multipliers inp) t
                    = Some (the (risk_factor (i_risk_multipliers inp) t))"
    by auto
  from single_run_total [OF noise var this] show ?thesis .
qed

lemma load_inputs_results:
  "load_inputs (db\<lparr> simulation_results := rs \<rparr>) cid risk_profile
     = load_inputs db cid risk_profile"
proof -
  let ?db = "db\<lparr> simulation_results := rs \<rparr>"
  have "find_configuration ?db cid = find_configuration db cid"
    by (simp add: find_configuration_def)
  moreover have "latest_posterior ?db cid = latest_posterior db cid"
    by (simp add: latest_posterior_def)
  moreover have "find_risk_profile ?db rid = find_risk_profile db rid" for rid
    by (simp add: find_risk_profile_def)
  then have "load_risk ?db risk_profile = load_risk db risk_profile"
    by (simp add: load_risk_def cong: option.case_cong)
  ultimately show ?thesis
    by (simp only: load_inputs_def)
qed

lemma simulate_Success_run:
  assumes s: "simulate cs db g cid nruns risk_profile = (Success r, dbg, g_end)"
    and load: "load_inputs db cid risk_profile = Inr inp"
  shows "\<exists>results.
           run_loop cid (SIMULATION_MONTHS cs) inp [0..<nat nruns] ([], []) g
             = (Inr (n_totals r, results), g_end)
         \<and> dbg = db\<lparr> simulation_results := simulation_results db @ results \<rparr>
         \<and> n_totals r \<noteq> []"
  using s load
  by (auto simp: simulate_def Let_def summary_of_def np_min_def
      split: sum.splits prod.splits list.splits)

lemma simulate_Success_totals:
  assumes s: "simulate cs db g cid nruns risk_profile = (Success r, dbg, g_end)"
    and load: "load_inputs db cid risk_profile = Inr inp"
    and var: "0 \<le> i_eta_r0_var inp" "0 \<le> i_eta_phi0_var inp"
  shows "n_totals r =
           map (\<lambda>i. spec_total (SIMULATION_MONTHS cs) inp
                      (\<lambda>t. the (risk_factor (i_risk_multipliers inp) t))
                      (run_draws (SIMULATION_MONTHS cs) g i)) [0..<nat nruns]
       \<and> g_end = advance (nat nruns * draws_per_run (SIMULATION_MONTHS cs)) g
       \<and> load_inputs dbg cid risk_profile = Inr inp"
proof -
  let ?n = "SIMULATION_MONTHS cs"
  from simulate_Success_run [OF s load] obtain results where
    run: "run_loop cid ?n inp [0..<nat nruns] ([], []) g = (Inr (n_totals r, results), g_end)"
    and dbg: "dbg = db\<lparr> simulation_results := simulation_results db @ results \<rparr>"
    and ne: "n_totals r \<noteq> []"
    by blast
  from run_loop_Inr [OF run]
  have g_end: "g_end = advance (nat nruns * draws_per_run ?n) g"
    and t: "n_totals r = map (\<lambda>j. projr (fst (single_run ?n inp (run_draws ?n g j))))
                           [0..<nat nruns]"
    by simp_all
  from t ne have "0 < nat nruns" by (cases "nat nruns") simp_all
  then have upt: "[0..<nat nruns] = 0 # [Suc 0..<nat nruns]" by (rule upt_conv_Cons)
  from run obtain v g1 where first: "single_run ?n inp g = (Inr v, g1)"
    unfolding upt by (cases "single_run ?n inp g") (auto split: sum.splits)
  have "projr (fst (single_run ?n inp h))
          = spec_total ?n inp (\<lambda>t. the (risk_factor (i_risk_multipliers inp) t)) h" for h
    by (simp add: single_run_success_total [OF var first])
  with t have "n_totals r =
           map (\<lambda>i. spec_total ?n inp (\<lambda>t. the (risk_factor (i_risk_multipliers inp) t))
                      (run_draws ?n g i)) [0..<nat nruns]"
    by simp
  moreover have "load_inputs dbg cid risk_profile = Inr inp"
    by (simp add: dbg load_inputs_results load)
  ultimately show ?thesis using g_end by simp
qed

text \<open>
  Claim C2, amended. \<open>simulate\<close> takes no seed: its variates come from the process-wide
  generator of \<^verbatim>\<open>np.random\<close>, which no source file seeds, so the state of the generator at
  the call is an input like the session. For a posterior whose variances are not
  negative:

  \<^item> two calls with the same arguments whose generators yield the same first
    \<open>n_runs * (2 + 2 * months)\<close> variates give the same response, so the same totals, and
    leave the same session;

  \<^item> in a successful call the total of run \<open>i\<close> is computed from the block of
    \<open>2 + 2 * months\<close> variates that starts at \<open>i * (2 + 2 * months)\<close>, as \<open>spec_total\<close> says:
    \<open>z 0\<close> and \<open>z 1\<close> of the block give the initial \<open>eta_r\<close> and \<open>eta_phi\<close>, \<open>z (2 + 2 * t)\<close> and
    \<open>z (3 + 2 * t)\<close> the noise of the two channels in month \<open>t\<close>. The blocks of different
    runs do not overlap, and the call leaves the generator advanced by \<open>n_runs\<close> blocks;

  \<^item> a repeated call with the same arguments, on the session and the generator that the
    first call left, computes its totals from the \<open>n_runs\<close> blocks that follow.
\<close>

theorem simulate_draws_from_generator_state:
  assumes load: "load_inputs db cid risk_profile = Inr inp"
    and var: "0 \<le> i_eta_r0_var inp" "0 \<le> i_eta_phi0_var inp"
  shows "(agree (nat nruns * draws_per_run (SIMULATION_MONTHS cs)) g g' \<longrightarrow>
            fst (simulate cs db g cid nruns risk_profile)
              = fst (simulate cs db g' cid nruns risk_profile)
          \<and> fst (snd (simulate cs db g cid nruns risk_profile))
              = fst (snd (simulate cs db g' cid nruns risk_profile)))
       \<and> (simulate cs db g cid nruns risk_profile = (Success r, dbg, g_end) \<longrightarrow>
            n_totals r =
              map (\<lambda>i. spec_total (SIMULATION_MONTHS cs) inp
                         (\<lambda>t. the (risk_factor (i_risk_multipliers inp) t))
                         (run_draws (SIMULATION_MONTHS cs) g i)) [0..<nat nruns]
          \<and> g_end = advance (nat nruns * draws_per_run (SIMULATION_MONTHS cs)) g)
       \<and> (simulate cs db g cid nruns risk_profile = (Success r, dbg, g_end)
          \<and> simulate cs dbg g_end cid nruns risk_profile = (Success r_next, db_next, g_next) \<longrightarrow>
            n_totals r_next =
              map (\<lambda>i. spec_total (SIMULATION_MONTHS cs) inp
                         (\<lambda>t. the (risk_factor (i_risk_multipliers inp) t))
                         (run_draws (SIMULATION_MONTHS cs) g (nat nruns + i))) [0..<nat nruns])"
proof (intro conjI impI)
  let ?n = "SIMULATION_MONTHS cs"
  assume a: "agree (nat nruns * draws_per_run ?n) g g'"
  then have "agree (length [0..<nat nruns] * draws_per_run ?n) g g'" by simp
  from run_loop_agree [OF this, of cid inp "([], [])"] obtain k v where
    "run_loop cid ?n inp [0..<nat nruns] ([], []) g = (v, advance k g)"
    "run_loop cid ?n inp [0..<nat nruns] ([], []) g' = (v, advance k g')"
    by blast
  with load show "fst (simulate cs db g cid nruns risk_profile)
        = fst (simulate cs db g' cid nruns risk_profile)"
    and "fst (snd (simulate cs db g cid nruns risk_profile))
        = fst (snd (simulate cs db g' cid nruns risk_profile))"
    by (simp_all add: simulate_def Let_def split: sum.splits prod.splits)
next
  assume s: "simulate cs db g cid nruns risk_profile = (Success r, dbg, g_end)"
  from simulate_Success_totals [OF s load var]
  show "n_totals r =
          map (\<lambda>i. spec_total (SIMULATION_MONTHS cs) inp
                     (\<lambda>t. the (risk_factor (i_risk_multipliers inp) t))
                     (run_draws (SIMULATION_MONTHS cs) g i)) [0..<nat nruns]"
    and "g_end = advance (nat nruns * draws_per_run (SIMULATION_MONTHS cs)) g"
    by simp_all
next
  let ?n = "SIMULATION_MONTHS cs"
  assume "simulate cs db g cid nruns risk_profile = (Success r, dbg, g_end)
          \<and> simulate cs dbg g_end cid nruns risk_profile = (Success r_next, db_next, g_next)"
  then have s: "simulate cs db g cid nruns risk_profile = (Success r, dbg, g_end)"
    and s2: "simulate cs dbg g_end cid nruns risk_profile = (Success r_next, db_next, g_next)"
    by simp_all
  from simulate_Success_totals [OF s load var]
  have g_end: "g_end = advance (nat nruns * draws_per_run ?n) g"
    and load2: "load_inputs dbg cid risk_profile = Inr inp"
    by simp_all
  have shift: "run_draws ?n g_end i = run_draws ?n g (nat nruns + i)" for i
    by (simp add: g_end run_draws_def advance_advance distrib_right add.commute)
  from simulate_Success_totals [OF s2 load2 var]
  show "n_totals r_next =
          map (\<lambda>i. spec_total ?n inp (\<lambda>t. the (risk_factor (i_risk_multipliers inp) t))
                     (run_draws ?n g (nat nruns + i))) [0..<nat nruns]"
    by (simp add: shift)
qed

lemma str_nat_nonempty: "str_nat n \<noteq> []"
  by (subst str_nat.simps) simp

lemma str_nat_digit:
  assumes "n < 10"
  shows "(str_nat n = ''0'') = (n = 0)"
proof -
  have "distinct ''0123456789''" by simp
  moreover have "n < length ''0123456789''" "0 < length ''0123456789''"
    using assms by simp_all
  ultimately have "(''0123456789'' ! n = ''0123456789'' ! 0) = (n = 0)"
    by (rule nth_eq_iff_index_eq)
  moreover have "str_nat n = [''0123456789'' ! n]"
    using assms by (subst str_nat.simps) simp
  ultimately show ?thesis by simp
qed

lemma str_nat_eq_0: "(str_nat n = ''0'') = (n = 0)"
proof (cases "n < 10")
  case True
  then show ?thesis by (rule str_nat_digit)
next
  case False
  then have "str_nat n = str_nat (n div 10) @ [''0123456789'' ! (n mod 10)]"
    by (subst str_nat.simps) simp
  moreover have "length (str_nat (n div 10)) \<noteq> 0"
    using str_nat_nonempty [of "n div 10"] by simp
  ultimately have "length (str_nat n) \<noteq> 1" by simp
  then have "str_nat n \<noteq> ''0''" by auto
  with False show ?thesis by simp
qed

lemma resolve_example_dict:
  "resolve_multiplier (JDict [(''0'', JNum 2), (''default'', JNum 1)]) t
     = JNum (if t = 0 then 2 else 1)"
  by (simp add: resolve_multiplier_def str_nat_eq_0 del: str_nat.simps)

lemma risk_factor_example_dict:
  "risk_factor (Some (JDict [(''0'', JNum 2), (''default'', JNum 1)])) t
     = Some (if t = 0 then 2 else 1)"
  by (simp add: risk_factor_def resolve_example_dict del: str_nat.simps)

text \<open>
  Claim C5. The multiplier of month \<open>t\<close>: a sequence gives its \<open>t\<close>-th element, and its last
  element beyond its length; a mapping gives the value at the key \<open>t\<close> (the decimal string),
  else the value at \<^verbatim>\<open>"default"\<close>, else 1.0; a scalar gives itself for every month. \<open>N_t\<close> is
  multiplied by the multiplier before it is stored in the array that is summed. With
  the mapping \<^verbatim>\<open>{"0": 2.0, "default": 1.0}\<close> the multiplier is 2 for month 0 and 1 for every
  other month, so only the contribution of month 0 is doubled.
\<close>

theorem risk_multiplier_resolution:
  "(t < length xs \<longrightarrow> resolve_multiplier (JList xs) t = xs ! t)
   \<and> (length xs \<le> t \<and> xs \<noteq> [] \<longrightarrow> resolve_multiplier (JList xs) t = last xs)
   \<and> (map_of d (str_nat t) = Some v \<longrightarrow> resolve_multiplier (JDict d) t = v)
   \<and> (map_of d (str_nat t) = None \<and> map_of d ''default'' = Some v \<longrightarrow>
        resolve_multiplier (JDict d) t = v)
   \<and> (map_of d (str_nat t) = None \<and> map_of d ''default'' = None \<longrightarrow>
        resolve_multiplier (JDict d) t = JNum 1)
   \<and> resolve_multiplier (JNum c) t = JNum c
   \<and> (resolve_multiplier rm t = JNum m \<longrightarrow> apply_risk (Some rm) t N_t = Inr (N_t * m))
   \<and> (0 \<le> i_sigma_r inp \<and> 0 \<le> i_sigma_phi inp \<and> i_risk_multipliers inp = Some rm
        \<and> resolve_multiplier rm t = JNum m \<longrightarrow>
        month_loop inp (t # rest) (e_r, e_phi, N) g =
          month_loop inp rest
            (e_r + i_alpha_r inp + i_sigma_r inp * g 0,
             e_phi + i_alpha_phi inp + i_sigma_phi inp * g 1,
             N[t := i_A inp * i_K inp * exp (e_r + i_alpha_r inp + i_sigma_r inp * g 0)
                      * expit (e_phi + i_alpha_phi inp + i_sigma_phi inp * g 1) * m])
            (advance 2 g))
   \<and> resolve_multiplier (JDict [(''0'', JNum 2), (''default'', JNum 1)]) t
        = JNum (if t = 0 then 2 else 1)
   \<and> (0 \<le> i_sigma_r inp \<and> 0 \<le> i_sigma_phi inp
        \<and> 0 \<le> i_eta_r0_var inp \<and> 0 \<le> i_eta_phi0_var inp
        \<and> i_risk_multipliers inp = Some (JDict [(''0'', JNum 2), (''default'', JNum 1)]) \<longrightarrow>
        single_run n inp g =
          (Inr (\<Sum>t<n. spec_N inp (\<lambda>t. if t = 0 then 2 else 1) g t),
           advance (draws_per_run n) g))"
proof (intro conjI impI)
  show "resolve_multiplier (JList xs) t = xs ! t" if "t < length xs"
    using that by (simp add: resolve_multiplier_def)
  show "resolve_multiplier (JList xs) t = last xs" if "length xs \<le> t \<and> xs \<noteq> []"
    using that by (simp add: resolve_multiplier_def)
  show "resolve_multiplier (JDict d) t = v" if "map_of d (str_nat t) = Some v"
    using that by (simp add: resolve_multiplier_def del: str_nat.simps)
  show "resolve_multiplier (JDict d) t = v"
    if "map_of d (str_nat t) = None \<and> map_of d ''default'' = Some v"
    using that by (simp add: resolve_multiplier_def del: str_nat.simps)
  show "resolve_multiplier (JDict d) t = JNum 1"
    if "map_of d (str_nat t) = None \<and> map_of d ''default'' = None"
    using that by (simp add: resolve_multiplier_def del: str_nat.simps)
  show "resolve_multiplier (JNum c) t = JNum c"
    by (simp add: resolve_multiplier_def)
  show "apply_risk (Some rm) t N_t = Inr (N_t * m)" if "resolve_multiplier rm t = JNum m"
    using that by (simp add: apply_risk_def times_multiplier_def)
  show "month_loop inp (t # rest) (e_r, e_phi, N) g =
          month_loop inp rest
            (e_r + i_alpha_r inp + i_sigma_r inp * g 0,
             e_phi + i_alpha_phi inp + i_sigma_phi inp * g 1,
             N[t := i_A inp * i_K inp * exp (e_r + i_alpha_r inp + i_sigma_r inp * g 0)
                      * expit (e_phi + i_alpha_phi inp + i_sigma_phi inp * g 1) * m])
            (advance 2 g)"
    if a: "0 \<le> i_sigma_r inp \<and> 0 \<le> i_sigma_phi inp \<and> i_risk_multipliers inp = Some rm
        \<and> resolve_multiplier rm t = JNum m"
  proof -
    from a have r: "0 \<le> i_sigma_r inp" and phi: "0 \<le> i_sigma_phi inp" by simp_all
    from a have "apply_risk (i_risk_multipliers inp) t v = Inr (v * m)" for v
      by (simp add: apply_risk_def times_multiplier_def)
    then show ?thesis
      by (simp add: month_loop_Cons [OF r phi] del: month_loop.simps)
  qed
  show "resolve_multiplier (JDict [(''0'', JNum 2), (''default'', JNum 1)]) t
        = JNum (if t = 0 then 2 else 1)"
    by (rule resolve_example_dict)
  show "single_run n inp g =
          (Inr (\<Sum>t<n. spec_N inp (\<lambda>t. if t = 0 then 2 else 1) g t),
           advance (draws_per_run n) g)"
    if a: "0 \<le> i_sigma_r inp \<and> 0 \<le> i_sigma_phi inp
        \<and> 0 \<le> i_eta_r0_var inp \<and> 0 \<le> i_eta_phi0_var inp
        \<and> i_risk_multipliers inp = Some (JDict [(''0'', JNum 2), (''default'', JNum 1)])"
  proof -
    from a have noise: "0 \<le> i_sigma_r inp" "0 \<le> i_sigma_phi inp"
      and var: "0 \<le> i_eta_r0_var inp" "0 \<le> i_eta_phi0_var inp"
      by simp_all
    from a have "\<forall>t<n. risk_factor (i_risk_multipliers inp) t = Some (if t = 0 then 2 else 1)"
      by (simp add: risk_factor_example_dict del: str_nat.simps)
    from single_run_total [OF noise var this] show ?thesis
      by (simp add: spec_total_def)
  qed
qed

section \<open>Properties of the summary\<close>

lemma foldl_min_Min: "foldl min v vs = Min (set (v # vs))"
proof (induction vs arbitrary: v)
  case Nil
  then show ?case by simp
next
  case (Cons w ws)
  have "foldl min v (w # ws) = Min (set (min v w # ws))" by (simp add: Cons.IH)
  also have "\<dots> = Min (set (v # w # ws))"
    by (cases "ws = []") (simp_all add: min.assoc)
  finally show ?case .
qed

lemma foldl_max_Max: "foldl max v vs = Max (set (v # vs))"
proof (induction vs arbitrary: v)
  case Nil
  then show ?case by simp
next
  case (Cons w ws)
  have "foldl max v (w # ws) = Max (set (max v w # ws))" by (simp add: Cons.IH)
  also have "\<dots> = Max (set (v # w # ws))"
    by (cases "ws = []") (simp_all add: max.assoc)
  finally show ?case .
qed

lemma np_min_nonempty: "xs \<noteq> [] \<Longrightarrow> np_min xs = Inr (Min (set xs))"
  by (cases xs) (simp_all add: np_min_def foldl_min_Min del: set_simps)

lemma np_max_nonempty: "xs \<noteq> [] \<Longrightarrow> np_max xs = Inr (Max (set xs))"
  by (cases xs) (simp_all add: np_max_def foldl_max_Max del: set_simps)

lemma np_std_spec: "np_std xs = spec_std xs"
  by (simp add: np_std_def spec_std_def np_mean_def Let_def)

lemma sum_list_indicator:
  "sum_list (map (\<lambda>v. if P v then 1 else 0) xs) = real (length (filter P xs))"
  by (induction xs) simp_all

lemma p_hit_spec:
  "np_mean (map (\<lambda>v. if v \<ge> tgt then 1 else 0) xs) = spec_p_hit xs tgt"
  by (simp add: np_mean_def spec_p_hit_def sum_list_indicator)

lemma np_percentile_spec:
  assumes "xs \<noteq> []" and "0 \<le> q" and "q \<le> 100"
  shows "np_percentile xs q = spec_percentile xs q"
proof -
  define n where "n = length xs"
  define pos where "pos = q / 100 * real (n - 1)"
  define srt where "srt = sort xs"
  define j where "j = nat \<lfloor>pos\<rfloor>"
  have pos0: "0 \<le> pos" using assms(2) by (simp add: pos_def)
  have "q / 100 \<le> 1" using assms(3) by simp
  then have "q / 100 * real (n - 1) \<le> 1 * real (n - 1)" by (intro mult_right_mono) simp_all
  then have posn: "pos \<le> real (n - 1)" by (simp add: pos_def)
  have fl: "real j = of_int \<lfloor>pos\<rfloor>" using pos0 by (simp add: j_def)
  have ls: "length srt = n" by (simp add: srt_def n_def)
  have p: "real (n - 1) * (q / 100) = pos"
    by (simp add: pos_def mult.commute)
  have np: "np_percentile xs q = srt ! j + (srt ! min (j + 1) (n - 1) - srt ! j) * (pos - real j)"
    unfolding np_percentile_def Let_def srt_def [symmetric]
    by (simp only: p ls j_def)
  have p': "q / 100 * real (length xs - 1) = pos"
    by (simp add: n_def pos_def)
  have sp: "spec_percentile xs q = srt ! j + (pos - real j) * (srt ! nat \<lceil>pos\<rceil> - srt ! j)"
    unfolding spec_percentile_def Let_def srt_def [symmetric]
    by (simp only: p' j_def)
  show ?thesis
  proof (cases "pos = of_int \<lfloor>pos\<rfloor>")
    case True
    then have "pos - real j = 0" using fl by simp
    then show ?thesis unfolding np sp by simp
  next
    case False
    then have ce: "\<lceil>pos\<rceil> = \<lfloor>pos\<rfloor> + 1"
      by (metis ceiling_altdef)
    have "of_int \<lfloor>pos\<rfloor> < pos" using False by linarith
    with posn have "of_int \<lfloor>pos\<rfloor> < real (n - 1)" by linarith
    then have "\<lfloor>pos\<rfloor> < int (n - 1)" by linarith
    then have lt: "j + 1 \<le> n - 1" using pos0 unfolding j_def by linarith
    have "0 \<le> \<lfloor>pos\<rfloor>" using pos0 by simp
    then have "nat \<lceil>pos\<rceil> = j + 1" unfolding ce j_def by linarith
    moreover have "min (j + 1) (n - 1) = j + 1" using lt by simp
    ultimately show ?thesis unfolding np sp by (simp only: mult.commute)
  qed
qed

lemma summary_of_spec:
  assumes "totals \<noteq> []"
  shows "summary_of totals =
           Inr \<lparr> mean = sum_list totals / real (length totals), std = spec_std totals,
                 minimum = Min (set totals), maximum = Max (set totals),
                 p5 = spec_percentile totals 5, p50 = spec_percentile totals 50,
                 p95 = spec_percentile totals 95 \<rparr>"
  using assms
  by (simp add: summary_of_def np_min_nonempty np_max_nonempty np_std_spec np_percentile_spec
      np_mean_def)

lemma default_target_spec:
  "(case target_arg of Some tg \<Rightarrow> tg | None \<Rightarrow> default_target cs db cid)
     = spec_target cs db cid target_arg"
  by (simp add: default_target_def spec_target_def split: option.splits)

lemma summarize_totals_spec:
  assumes "totals \<noteq> []"
  shows "summarize_totals cs db cid target_arg totals =
           Success \<lparr> summarize_success.config_id = cid,
                      stats = \<lparr> mean = sum_list totals / real (length totals),
                                std = spec_std totals,
                                minimum = Min (set totals), maximum = Max (set totals),
                                p5 = spec_percentile totals 5, p50 = spec_percentile totals 50,
                                p95 = spec_percentile totals 95,
                                count = length totals \<rparr>,
                      target = spec_target cs db cid target_arg,
                      p_hit = spec_p_hit totals (spec_target cs db cid target_arg),
                      n_runs = length totals \<rparr>"
  using assms
  by (simp add: summarize_totals_def summary_of_spec default_target_spec p_hit_spec Let_def
      sim_summary.extend_def statistics.fields_def)

lemma example_p50: "spec_percentile example_totals 50 = 30"
proof -
  have "sort example_totals = [10, 20, 30, 40, 50]" by (simp add: example_totals_def)
  moreover have "(50::real) / 100 * real (length example_totals - 1) = 2"
    by (simp add: example_totals_def)
  ultimately show ?thesis by (simp add: spec_percentile_def Let_def)
qed

lemma example_p_hit: "spec_p_hit example_totals 30 = 3 / 5"
  by (simp add: spec_p_hit_def example_totals_def)

text \<open>
  Claim C4. For every ensemble of totals that is not empty, the summary holds the mean,
  the population standard deviation, the minimum and maximum, the 5th, 50th and 95th
  percentiles by linear interpolation, the count, the target and the fraction of totals
  that reach the target. The target is the one given, else the application rate times
  the default multiplier when the rate is known, else the fallback constant.
  \<open>summarize\<close> applies this to the ensemble of step 1. For the totals 10, 20, 30, 40, 50
  and the target 30 the hit probability is 0.6 and the median is 30.
\<close>

theorem summarize_statistics:
  "(totals \<noteq> [] \<longrightarrow>
      summarize_totals cs db cid target_arg totals =
        Success \<lparr> summarize_success.config_id = cid,
                   stats = \<lparr> mean = sum_list totals / real (length totals),
                             std = spec_std totals,
                             minimum = Min (set totals), maximum = Max (set totals),
                             p5 = spec_percentile totals 5, p50 = spec_percentile totals 50,
                             p95 = spec_percentile totals 95,
                             count = length totals \<rparr>,
                   target = spec_target cs db cid target_arg,
                   p_hit = spec_p_hit totals (spec_target cs db cid target_arg),
                   n_runs = length totals \<rparr>)
   \<and> (ensemble cs db g cid nruns risk_profile = (Inr totals, db', g') \<longrightarrow>
        summarize cs db g cid target_arg nruns risk_profile
          = (summarize_totals cs db' cid target_arg totals, db', g'))
   \<and> (\<exists>s. summarize_totals cs db cid (Some 30) example_totals = Success s
          \<and> p_hit s = 3 / 5 \<and> p50 (stats s) = 30)"
proof (intro conjI impI)
  assume "totals \<noteq> []"
  then show "summarize_totals cs db cid target_arg totals =
        Success \<lparr> summarize_success.config_id = cid,
                   stats = \<lparr> mean = sum_list totals / real (length totals),
                             std = spec_std totals,
                             minimum = Min (set totals), maximum = Max (set totals),
                             p5 = spec_percentile totals 5, p50 = spec_percentile totals 50,
                             p95 = spec_percentile totals 95,
                             count = length totals \<rparr>,
                   target = spec_target cs db cid target_arg,
                   p_hit = spec_p_hit totals (spec_target cs db cid target_arg),
                   n_runs = length totals \<rparr>"
    by (rule summarize_totals_spec)
next
  assume "ensemble cs db g cid nruns risk_profile = (Inr totals, db', g')"
  then show "summarize cs db g cid target_arg nruns risk_profile
          = (summarize_totals cs db' cid target_arg totals, db', g')"
    by (simp add: summarize_def)
next
  have ne: "example_totals \<noteq> []" by (simp add: example_totals_def)
  have tg: "spec_target cs db cid (Some 30) = 30" by (simp add: spec_target_def)
  show "\<exists>s. summarize_totals cs db cid (Some 30) example_totals = Success s
          \<and> p_hit s = 3 / 5 \<and> p50 (stats s) = 30"
    by (simp add: summarize_totals_spec [OF ne] tg example_p50 example_p_hit)
qed

lemma ensemble_stored:
  assumes "existing_results_of db cid \<noteq> []"
  shows "ensemble cs db g cid nruns risk_profile
           = (Inr (List.map_filter n_total (existing_results_of db cid)), db, g)"
  using assms by (simp add: ensemble_def Let_def)

lemma map_filter_n_total:
  "List.map_filter n_total rows = map (\<lambda>r. the (n_total r)) (filter (\<lambda>r. n_total r \<noteq> None) rows)"
  by (induction rows) (auto split: option.splits)

lemma existing_results_without_nulls:
  "existing_results_of (db\<lparr> simulation_results :=
       filter (\<lambda>r. n_total r \<noteq> None) (simulation_results db) \<rparr>) cid
     = filter (\<lambda>r. n_total r \<noteq> None) (existing_results_of db cid)"
  by (simp add: existing_results_of_def conj_commute)

lemma spec_target_results:
  "spec_target cs (db\<lparr> simulation_results := rs \<rparr>) cid target_arg
     = spec_target cs db cid target_arg"
proof -
  have "find_configuration (db\<lparr> simulation_results := rs \<rparr>) cid = find_configuration db cid"
    by (simp add: find_configuration_def)
  then show ?thesis by (simp only: spec_target_def)
qed

text \<open>
  Claim C10. When results are stored for the configuration, the ensemble is made of the
  stored totals that are not null. The rows without a total contribute to no statistic
  and not to the count: the summary is the one of the session with these rows removed.
  When no total remains, the response is the error "No valid simulation results".
\<close>

theorem null_totals_are_excluded:
  assumes "existing_results_of db cid \<noteq> []"
  shows "summarize cs db g cid target_arg nruns risk_profile
           = (summarize_totals cs db cid target_arg
                (map (\<lambda>r. the (n_total r))
                   (filter (\<lambda>r. n_total r \<noteq> None) (existing_results_of db cid))), db, g)
       \<and> (filter (\<lambda>r. n_total r \<noteq> None) (existing_results_of db cid) = [] \<longrightarrow>
            summarize cs db g cid target_arg nruns risk_profile
              = (Error (''No valid simulation results for '' @ cid), db, g))
       \<and> (filter (\<lambda>r. n_total r \<noteq> None) (existing_results_of db cid) \<noteq> [] \<longrightarrow>
            (\<exists>s. fst (summarize cs db g cid target_arg nruns risk_profile) = Success s
                \<and> count (stats s)
                    = length (filter (\<lambda>r. n_total r \<noteq> None) (existing_results_of db cid))
                \<and> fst (summarize cs
                          (db\<lparr> simulation_results :=
                                filter (\<lambda>r. n_total r \<noteq> None) (simulation_results db) \<rparr>)
                          g cid target_arg nruns risk_profile) = Success s))"
proof (intro conjI impI)
  let ?kept = "filter (\<lambda>r. n_total r \<noteq> None) (existing_results_of db cid)"
  let ?totals = "map (\<lambda>r. the (n_total r)) ?kept"
  show whole: "summarize cs db g cid target_arg nruns risk_profile
           = (summarize_totals cs db cid target_arg ?totals, db, g)"
    by (simp add: summarize_def ensemble_stored [OF assms] map_filter_n_total)
  show "summarize cs db g cid target_arg nruns risk_profile
              = (Error (''No valid simulation results for '' @ cid), db, g)"
    if "?kept = []"
    using that by (simp add: whole summarize_totals_def)
  show "\<exists>s. fst (summarize cs db g cid target_arg nruns risk_profile) = Success s
                \<and> count (stats s) = length ?kept
                \<and> fst (summarize cs
                          (db\<lparr> simulation_results :=
                                filter (\<lambda>r. n_total r \<noteq> None) (simulation_results db) \<rparr>)
                          g cid target_arg nruns risk_profile) = Success s"
    if kept: "?kept \<noteq> []"
  proof -
    let ?db = "db\<lparr> simulation_results :=
                                filter (\<lambda>r. n_total r \<noteq> None) (simulation_results db) \<rparr>"
    from kept have ne: "?totals \<noteq> []" by simp
    have ex: "existing_results_of ?db cid = ?kept"
      by (rule existing_results_without_nulls)
    with kept have "existing_results_of ?db cid \<noteq> []" by simp
    then have "ensemble cs ?db g cid nruns risk_profile
            = (Inr (List.map_filter n_total (existing_results_of ?db cid)), ?db, g)"
      by (rule ensemble_stored)
    also have "List.map_filter n_total (existing_results_of ?db cid) = ?totals"
      unfolding ex map_filter_n_total by simp
    finally have "summarize cs ?db g cid target_arg nruns risk_profile
            = (summarize_totals cs ?db cid target_arg ?totals, ?db, g)"
      by (simp only: summarize_def sum.case prod.case)
    moreover have "summarize_totals cs ?db cid target_arg ?totals
                     = summarize_totals cs db cid target_arg ?totals"
      by (simp only: summarize_totals_spec [OF ne] spec_target_results)
    ultimately have same: "fst (summarize cs ?db g cid target_arg nruns risk_profile)
                     = fst (summarize cs db g cid target_arg nruns risk_profile)"
      by (simp only: whole fst_conv)
    have "\<exists>s. summarize_totals cs db cid target_arg ?totals = Success s
            \<and> count (stats s) = length ?totals"
      by (simp only: summarize_totals_spec [OF ne]) simp
    then obtain s where "summarize_totals cs db cid target_arg ?totals = Success s"
      and "count (stats s) = length ?kept"
      by auto
    with same whole show ?thesis by simp
  qed
qed

section \<open>The properties on the example data\<close>

lemma example_load_inputs:
  "load_inputs example_sim_db ''cfg-1'' (Some ''risk-1'') = Inr example_inputs"
  by (simp add: load_inputs_def find_configuration_def latest_posterior_def load_risk_def
      truthy_id_def find_risk_profile_def load_risk_multipliers_def first_row_def
      example_sim_db_def example_risk_def example_inputs_def)

lemma example_inputs_nonneg:
  "0 \<le> i_sigma_r example_inputs" "0 \<le> i_sigma_phi example_inputs"
  "0 \<le> i_eta_r0_var example_inputs" "0 \<le> i_eta_phi0_var example_inputs"
  by (simp_all add: example_inputs_def)

lemma example_risk_factor:
  "\<forall>t<n. risk_factor (i_risk_multipliers example_inputs) t = Some (example_mult t)"
  by (simp add: example_inputs_def example_risk_def example_mult_def risk_factor_example_dict
      del: str_nat.simps)

lemma example_months: "SIMULATION_MONTHS example_consts = 120"
  by (simp add: example_consts_def)

lemma simulate_succeeds:
  assumes load: "load_inputs db cid risk_profile = Inr inp"
    and noise: "0 \<le> i_sigma_r inp" "0 \<le> i_sigma_phi inp"
    and var: "0 \<le> i_eta_r0_var inp" "0 \<le> i_eta_phi0_var inp"
    and risk: "\<forall>t<SIMULATION_MONTHS cs. risk_factor (i_risk_multipliers inp) t = Some (mult t)"
    and runs: "0 < nruns"
  shows "\<exists>r db1 g1. simulate cs db g cid nruns risk_profile = (Success r, db1, g1)"
proof -
  let ?n = "SIMULATION_MONTHS cs"
  have "\<exists>v g1. single_run ?n inp h = (Inr v, g1)" for h
    using single_run_total [OF noise var risk] by blast
  from run_loop_succeeds [OF this, of cid "[0..<nat nruns]" "([], [])" g]
  obtain totals results g' where
    run: "run_loop cid ?n inp [0..<nat nruns] ([], []) g = (Inr (totals, results), g')"
    by auto
  from run_loop_Inr [OF run] runs have "totals \<noteq> []" by simp
  then obtain sm where "summary_of totals = Inr sm"
    using summary_of_nonempty by blast
  with load run show ?thesis by (simp add: simulate_def)
qed

lemma example_agree: "agree 242 zero_rng late_rng"
  by (simp add: agree_def zero_rng_def late_rng_def)

lemma spec_walk_zero_noise:
  assumes "\<forall>j\<le>t. w j = 0"
  shows "spec_walk x0 0 s w t = x0"
  using assms by (induction t) simp_all

lemma spec_walk_unit_noise:
  assumes "\<forall>j\<le>t. w j = 1"
  shows "spec_walk x0 0 s w t = x0 + real (Suc t) * s"
  using assms by (induction t) (simp_all add: algebra_simps)

lemma sum_example_mult: "(\<Sum>t<Suc n. example_mult t) = real n + 2"
  by (induction n) (simp_all add: example_mult_def)

lemma example_factor:
  "the (risk_factor (i_risk_multipliers example_inputs) t) = example_mult t"
  using example_risk_factor [of "Suc t"] by simp

lemma example_N_zero_draws:
  assumes "t < 120"
  shows "spec_N example_inputs example_mult late_rng t = 5 / 2 * exp (- 2) * example_mult t"
proof -
  from assms have "\<forall>j\<le>t. late_rng (2 + 2 * j) = 0" "\<forall>j\<le>t. late_rng (3 + 2 * j) = 0"
    by (simp_all add: late_rng_def)
  then have
    "spec_walk x0 0 s (\<lambda>j. late_rng (2 + 2 * j)) t = x0"
    "spec_walk x0 0 s (\<lambda>j. late_rng (3 + 2 * j)) t = x0" for x0 s
    by (simp_all only: spec_walk_zero_noise)
  moreover have "late_rng 0 = 0" "late_rng 1 = 0"
    by (simp_all add: late_rng_def)
  ultimately show ?thesis
    by (simp add: spec_N_def example_inputs_def)
qed

lemma example_total_zero_draws:
  "spec_total 120 example_inputs example_mult late_rng = 605 / 2 * exp (- 2)"
proof -
  have "spec_total 120 example_inputs example_mult late_rng
          = (\<Sum>t<120. 5 / 2 * exp (- 2) * example_mult t)"
    unfolding spec_total_def by (rule sum.cong) (simp_all add: example_N_zero_draws)
  also have "\<dots> = 5 / 2 * exp (- 2) * (\<Sum>t<Suc 119. example_mult t)"
    by (simp add: sum_distrib_left)
  also have "\<dots> = 605 / 2 * exp (- 2)"
    by (simp only: sum_example_mult) simp
  finally show ?thesis .
qed

lemma example_N_unit_draws:
  "5 / 2 * exp (- 2) * example_mult t
     < spec_N example_inputs example_mult (advance 242 late_rng) t"
proof -
  let ?z = "advance 242 late_rng"
  have z: "?z n = 1" for n by (simp add: advance_def late_rng_def)
  let ?r = "spec_walk (- 2 + sqrt (1 / 100)) 0 (1 / 10 ^ 6) (\<lambda>j. ?z (2 + 2 * j)) t"
  let ?phi = "spec_walk (sqrt (1 / 100)) 0 (1 / 10 ^ 6) (\<lambda>j. ?z (3 + 2 * j)) t"
  have sq: "0 \<le> sqrt (1 / 100 :: real)" by simp
  have r: "?r = - 2 + sqrt (1 / 100) + real (Suc t) * (1 / 10 ^ 6)"
    by (rule spec_walk_unit_noise) (simp add: z)
  have phi: "?phi = sqrt (1 / 100) + real (Suc t) * (1 / 10 ^ 6)"
    by (rule spec_walk_unit_noise) (simp add: z)
  have pos: "0 < real (Suc t) * (1 / 10 ^ 6)" by simp
  from r sq pos have "- 2 < ?r" by linarith
  then have er: "exp (- 2) < exp ?r" by simp
  from phi sq pos have "0 < ?phi" by linarith
  then have "exp (- ?phi) < 1" by simp
  then have "1 + exp (- ?phi) < 2" by simp
  moreover have "0 < 1 + exp (- ?phi)" by (simp add: add_pos_pos)
  ultimately have ephi: "1 / 2 < 1 / (1 + exp (- ?phi))"
    by (simp add: field_simps)
  have "exp (- 2) * (1 / 2) < exp ?r * (1 / (1 + exp (- ?phi)))"
    by (rule mult_strict_mono [OF er ephi]) simp_all
  moreover have m: "0 < example_mult t" by (simp add: example_mult_def)
  ultimately have "exp (- 2) * (1 / 2) * example_mult t
                     < exp ?r * (1 / (1 + exp (- ?phi))) * example_mult t"
    by (simp only: mult_strict_right_mono)
  then have "5 * (exp (- 2) * (1 / 2) * example_mult t)
               < 5 * (exp ?r * (1 / (1 + exp (- ?phi))) * example_mult t)"
    by simp
  moreover have "spec_N example_inputs example_mult ?z t
                   = 5 * (exp ?r * (1 / (1 + exp (- ?phi))) * example_mult t)"
    by (simp add: spec_N_def example_inputs_def z)
  ultimately show ?thesis by simp
qed

lemma example_total_unit_draws:
  "605 / 2 * exp (- 2) < spec_total 120 example_inputs example_mult (advance 242 late_rng)"
proof -
  have "(\<Sum>t<120. spec_N example_inputs example_mult late_rng t)
          < (\<Sum>t<120. spec_N example_inputs example_mult (advance 242 late_rng) t)"
  proof (rule sum_strict_mono)
    show "finite {..<120::nat}" by simp
    show "{..<120::nat} \<noteq> {}" by (simp add: lessThan_empty_iff)
    show "spec_N example_inputs example_mult late_rng t
            < spec_N example_inputs example_mult (advance 242 late_rng) t"
      if "t \<in> {..<120}" for t
      using that example_N_unit_draws [of t] by (simp add: example_N_zero_draws)
  qed
  then show ?thesis
    using example_total_zero_draws by (simp add: spec_total_def)
qed

lemma example_call:
  assumes load: "load_inputs db ''cfg-1'' (Some ''risk-1'') = Inr example_inputs"
  shows "\<exists>r dbg. simulate example_consts db g ''cfg-1'' 1 (Some ''risk-1'')
                    = (Success r, dbg, advance 242 g)
               \<and> n_totals r = [spec_total 120 example_inputs example_mult g]
               \<and> load_inputs dbg ''cfg-1'' (Some ''risk-1'') = Inr example_inputs"
proof -
  have runs: "(0::int) < 1" by simp
  from simulate_succeeds [OF load example_inputs_nonneg example_risk_factor runs]
  obtain r dbg g_end where
    s: "simulate example_consts db g ''cfg-1'' 1 (Some ''risk-1'') = (Success r, dbg, g_end)"
    by blast
  from simulate_Success_totals [OF s load example_inputs_nonneg(3,4)]
  have "n_totals r = [spec_total 120 example_inputs example_mult g]"
    and "g_end = advance 242 g"
    and "load_inputs dbg ''cfg-1'' (Some ''risk-1'') = Inr example_inputs"
    by (simp_all add: example_months draws_per_run_def run_draws_def advance_0 example_factor)
  with s show ?thesis by blast
qed

theorem simulate_draws_from_generator_state_witness:
  "load_inputs example_sim_db ''cfg-1'' (Some ''risk-1'') = Inr example_inputs
   \<and> 0 \<le> i_eta_r0_var example_inputs \<and> 0 \<le> i_eta_phi0_var example_inputs
   \<and> agree (nat 1 * draws_per_run (SIMULATION_MONTHS example_consts)) zero_rng late_rng
   \<and> fst (simulate example_consts example_sim_db zero_rng ''cfg-1'' 1 (Some ''risk-1''))
       = fst (simulate example_consts example_sim_db late_rng ''cfg-1'' 1 (Some ''risk-1''))
   \<and> (\<exists>r dbg g_end r2 db2 g2.
         simulate example_consts example_sim_db zero_rng ''cfg-1'' 1 (Some ''risk-1'')
           = (Success r, dbg, g_end)
       \<and> simulate example_consts dbg g_end ''cfg-1'' 1 (Some ''risk-1'')
           = (Success r2, db2, g2)
       \<and> n_totals r =
           map (\<lambda>i. spec_total (SIMULATION_MONTHS example_consts) example_inputs
                      (\<lambda>t. the (risk_factor (i_risk_multipliers example_inputs) t))
                      (run_draws (SIMULATION_MONTHS example_consts) zero_rng i)) [0..<nat 1]
       \<and> g_end = advance (nat 1 * draws_per_run (SIMULATION_MONTHS example_consts)) zero_rng
       \<and> n_totals r2 =
           map (\<lambda>i. spec_total (SIMULATION_MONTHS example_consts) example_inputs
                      (\<lambda>t. the (risk_factor (i_risk_multipliers example_inputs) t))
                      (run_draws (SIMULATION_MONTHS example_consts) zero_rng (nat 1 + i)))
             [0..<nat 1])"
proof -
  let ?B = "draws_per_run (SIMULATION_MONTHS example_consts)"
  have B: "?B = 242" by (simp add: draws_per_run_def example_consts_def)
  have a: "agree (nat 1 * ?B) zero_rng late_rng"
    using example_agree by (simp add: B)
  from example_call [OF example_load_inputs, of zero_rng] obtain r dbg where
    s: "simulate example_consts example_sim_db zero_rng ''cfg-1'' 1 (Some ''risk-1'')
          = (Success r, dbg, advance 242 zero_rng)"
    and load2: "load_inputs dbg ''cfg-1'' (Some ''risk-1'') = Inr example_inputs"
    by blast
  from example_call [OF load2, of "advance 242 zero_rng"] obtain r2 db2 where
    s2: "simulate example_consts dbg (advance 242 zero_rng) ''cfg-1'' 1 (Some ''risk-1'')
          = (Success r2, db2, advance 242 (advance 242 zero_rng))"
    by blast
  note inst = simulate_draws_from_generator_state [OF example_load_inputs
      example_inputs_nonneg(3,4), where cs = example_consts and g = zero_rng and g' = late_rng
      and nruns = 1 and r = r and dbg = dbg and g_end = "advance 242 zero_rng"
      and r_next = r2 and db_next = db2 and g_next = "advance 242 (advance 242 zero_rng)"]
  from inst a have
    "fst (simulate example_consts example_sim_db zero_rng ''cfg-1'' 1 (Some ''risk-1''))
       = fst (simulate example_consts example_sim_db late_rng ''cfg-1'' 1 (Some ''risk-1''))"
    by blast
  moreover from inst s have
    "n_totals r =
           map (\<lambda>i. spec_total (SIMULATION_MONTHS example_consts) example_inputs
                      (\<lambda>t. the (risk_factor (i_risk_multipliers example_inputs) t))
                      (run_draws (SIMULATION_MONTHS example_consts) zero_rng i)) [0..<nat 1]"
    "advance 242 zero_rng = advance (nat 1 * ?B) zero_rng"
    by blast+
  moreover from inst s s2 have
    "n_totals r2 =
           map (\<lambda>i. spec_total (SIMULATION_MONTHS example_consts) example_inputs
                      (\<lambda>t. the (risk_factor (i_risk_multipliers example_inputs) t))
                      (run_draws (SIMULATION_MONTHS example_consts) zero_rng (nat 1 + i)))
             [0..<nat 1]"
    by blast
  ultimately show ?thesis
    using example_load_inputs example_inputs_nonneg(3,4) a s s2 by blast
qed

text \<open>
  Claim C2 as stated fails, for there is no seed to fix: of two consecutive calls with
  identical arguments, the first, on a generator whose first 242 variates are 0, returns
  the total \<open>605 / 2 * exp (- 2)\<close> (121 times \<open>10 * 0.5 * exp (- 2) * 0.5\<close>, month 0 counting
  twice); the second, on the session and the generator the first one left, succeeds and
  returns another total, computed from the variates that follow.
\<close>

theorem repeated_call_differs_counterexample:
  "map_option n_totals (success_value (fst
      (simulate example_consts example_sim_db late_rng ''cfg-1'' 1 (Some ''risk-1''))))
     = Some [605 / 2 * exp (- 2)]
   \<and> success_value (fst
        (simulate example_consts
           (fst (snd (simulate example_consts example_sim_db late_rng ''cfg-1'' 1
                        (Some ''risk-1''))))
           (snd (snd (simulate example_consts example_sim_db late_rng ''cfg-1'' 1
                        (Some ''risk-1''))))
           ''cfg-1'' 1 (Some ''risk-1''))) \<noteq> None
   \<and> map_option n_totals (success_value (fst
        (simulate example_consts
           (fst (snd (simulate example_consts example_sim_db late_rng ''cfg-1'' 1
                        (Some ''risk-1''))))
           (snd (snd (simulate example_consts example_sim_db late_rng ''cfg-1'' 1
                        (Some ''risk-1''))))
           ''cfg-1'' 1 (Some ''risk-1''))))
     \<noteq> Some [605 / 2 * exp (- 2)]"
proof -
  from example_call [OF example_load_inputs, of late_rng] obtain r dbg where
    s: "simulate example_consts example_sim_db late_rng ''cfg-1'' 1 (Some ''risk-1'')
          = (Success r, dbg, advance 242 late_rng)"
    and t: "n_totals r = [spec_total 120 example_inputs example_mult late_rng]"
    and load2: "load_inputs dbg ''cfg-1'' (Some ''risk-1'') = Inr example_inputs"
    by blast
  from example_call [OF load2, of "advance 242 late_rng"] obtain r2 db2 where
    s2: "simulate example_consts dbg (advance 242 late_rng) ''cfg-1'' 1 (Some ''risk-1'')
          = (Success r2, db2, advance 242 (advance 242 late_rng))"
    and t2: "n_totals r2 = [spec_total 120 example_inputs example_mult (advance 242 late_rng)]"
    by blast
  have "spec_total 120 example_inputs example_mult (advance 242 late_rng) \<noteq> 605 / 2 * exp (- 2)"
    using example_total_unit_draws by simp
  then show ?thesis
    by (simp add: s s2 t t2 success_value_def example_total_zero_draws)
qed

theorem simulate_totals_follow_model_witness:
  "load_inputs example_sim_db ''cfg-1'' (Some ''risk-1'') = Inr example_inputs
   \<and> SIMULATION_MONTHS example_consts = 120
   \<and> 0 \<le> i_sigma_r example_inputs \<and> 0 \<le> i_sigma_phi example_inputs
   \<and> 0 \<le> i_eta_r0_var example_inputs \<and> 0 \<le> i_eta_phi0_var example_inputs
   \<and> risk_factor (i_risk_multipliers example_inputs) 0 = Some (example_mult 0)
   \<and> (0::int) < 2
   \<and> (\<exists>sm. simulate example_consts example_sim_db zero_rng ''cfg-1'' 2 (Some ''risk-1'') =
           (Success \<lparr> simulate_success.config_id = ''cfg-1'', n_runs = 2,
                      n_totals = map (\<lambda>i. \<Sum>t<120. spec_N example_inputs example_mult
                                                      (run_draws 120 zero_rng i) t)
                                   [0..<nat 2],
                      summary = sm, risk_profile_id = truthy_id (Some ''risk-1'') \<rparr>,
            example_sim_db\<lparr> simulation_results := simulation_results example_sim_db @
                  map (\<lambda>i. \<lparr> simulation_result.config_id = ''cfg-1'',
                              n_total = Some (\<Sum>t<120. spec_N example_inputs example_mult
                                                       (run_draws 120 zero_rng i) t),
                              run_index = Some i \<rparr>) [0..<nat 2] \<rparr>,
            advance (nat 2 * 242) zero_rng))"
proof -
  have runs: "(0::int) < 2" by simp
  have r0: "risk_factor (i_risk_multipliers example_inputs) 0 = Some (example_mult 0)"
    using example_risk_factor [of 1] by simp
  from simulate_totals_follow_model [OF example_load_inputs example_months
      example_inputs_nonneg example_risk_factor runs, of zero_rng]
  have "\<exists>sm. simulate example_consts example_sim_db zero_rng ''cfg-1'' 2 (Some ''risk-1'') =
           (Success \<lparr> simulate_success.config_id = ''cfg-1'', n_runs = 2,
                      n_totals = map (\<lambda>i. \<Sum>t<120. spec_N example_inputs example_mult
                                                      (run_draws 120 zero_rng i) t)
                                   [0..<nat 2],
                      summary = sm, risk_profile_id = truthy_id (Some ''risk-1'') \<rparr>,
            example_sim_db\<lparr> simulation_results := simulation_results example_sim_db @
                  map (\<lambda>i. \<lparr> simulation_result.config_id = ''cfg-1'',
                              n_total = Some (\<Sum>t<120. spec_N example_inputs example_mult
                                                       (run_draws 120 zero_rng i) t),
                              run_index = Some i \<rparr>) [0..<nat 2] \<rparr>,
            advance (nat 2 * 242) zero_rng)"
    by (rule conjunct1)
  with example_load_inputs example_months example_inputs_nonneg r0 runs
  show ?thesis by (intro conjI)
qed

lemma example_existing_results:
  "List.map_filter n_total (existing_results_of example_results_db ''cfg-1'') = example_totals"
  "existing_results_of example_results_db ''cfg-1'' \<noteq> []"
  by (simp_all add: existing_results_of_def example_results_db_def example_totals_def)

lemma example_ensemble:
  "ensemble example_consts example_results_db zero_rng ''cfg-1'' None None
     = (Inr example_totals, example_results_db, zero_rng)"
  by (simp add: ensemble_stored [OF example_existing_results(2)] example_existing_results(1))

lemma example_default_target:
  "spec_target example_consts example_results_db ''cfg-1'' None = 20"
  by (simp add: spec_target_def find_configuration_def first_row_def example_results_db_def
      example_sim_db_def example_consts_def)

theorem summarize_statistics_witness:
  "example_totals \<noteq> []
   \<and> summarize_totals example_consts example_results_db ''cfg-1'' None example_totals =
        Success \<lparr> summarize_success.config_id = ''cfg-1'',
                   stats = \<lparr> mean = sum_list example_totals / real (length example_totals),
                             std = spec_std example_totals,
                             minimum = Min (set example_totals),
                             maximum = Max (set example_totals),
                             p5 = spec_percentile example_totals 5,
                             p50 = spec_percentile example_totals 50,
                             p95 = spec_percentile example_totals 95,
                             count = length example_totals \<rparr>,
                   target = spec_target example_consts example_results_db ''cfg-1'' None,
                   p_hit = spec_p_hit example_totals
                             (spec_target example_consts example_results_db ''cfg-1'' None),
                   n_runs = length example_totals \<rparr>
   \<and> spec_target example_consts example_results_db ''cfg-1'' None = 20
   \<and> ensemble example_consts example_results_db zero_rng ''cfg-1'' None None
        = (Inr example_totals, example_results_db, zero_rng)
   \<and> summarize example_consts example_results_db zero_rng ''cfg-1'' (Some 30) None None
        = (summarize_totals example_consts example_results_db ''cfg-1'' (Some 30) example_totals,
           example_results_db, zero_rng)"
proof -
  have ne: "example_totals \<noteq> []" by (simp add: example_totals_def)
  note inst = summarize_statistics [where totals = example_totals and cs = example_consts
      and db = example_results_db and cid = "''cfg-1''" and g = zero_rng and nruns = None
      and risk_profile = None and db' = example_results_db and g' = zero_rng]
  from inst [where target_arg = None] ne
  have "summarize_totals example_consts example_results_db ''cfg-1'' None example_totals =
        Success \<lparr> summarize_success.config_id = ''cfg-1'',
                   stats = \<lparr> mean = sum_list example_totals / real (length example_totals),
                             std = spec_std example_totals,
                             minimum = Min (set example_totals),
                             maximum = Max (set example_totals),
                             p5 = spec_percentile example_totals 5,
                             p50 = spec_percentile example_totals 50,
                             p95 = spec_percentile example_totals 95,
                             count = length example_totals \<rparr>,
                   target = spec_target example_consts example_results_db ''cfg-1'' None,
                   p_hit = spec_p_hit example_totals
                             (spec_target example_consts example_results_db ''cfg-1'' None),
                   n_runs = length example_totals \<rparr>"
    by blast
  moreover from inst [where target_arg = "Some 30"] example_ensemble
  have "summarize example_consts example_results_db zero_rng ''cfg-1'' (Some 30) None None
        = (summarize_totals example_consts example_results_db ''cfg-1'' (Some 30) example_totals,
           example_results_db, zero_rng)"
    by blast
  ultimately show ?thesis
    using ne example_default_target example_ensemble by blast
qed

lemma example_null_results:
  "existing_results_of example_null_db ''cfg-1'' \<noteq> []"
  "filter (\<lambda>r. n_total r \<noteq> None) (existing_results_of example_null_db ''cfg-1'') = []"
  by (simp_all add: existing_results_of_def example_null_db_def)

lemma example_kept_results:
  "filter (\<lambda>r. n_total r \<noteq> None) (existing_results_of example_results_db ''cfg-1'') \<noteq> []"
  "length (filter (\<lambda>r. n_total r \<noteq> None) (existing_results_of example_results_db ''cfg-1'')) = 5"
  by (simp_all add: existing_results_of_def example_results_db_def)

theorem null_totals_are_excluded_witness:
  "existing_results_of example_null_db ''cfg-1'' \<noteq> []
   \<and> filter (\<lambda>r. n_total r \<noteq> None) (existing_results_of example_null_db ''cfg-1'') = []
   \<and> summarize example_consts example_null_db zero_rng ''cfg-1'' None None None
        = (Error (''No valid simulation results for '' @ ''cfg-1''), example_null_db, zero_rng)
   \<and> existing_results_of example_results_db ''cfg-1'' \<noteq> []
   \<and> length (existing_results_of example_results_db ''cfg-1'') = 6
   \<and> (\<exists>s. fst (summarize example_consts example_results_db zero_rng ''cfg-1'' (Some 30) None None)
              = Success s
          \<and> count (stats s) = 5
          \<and> fst (summarize example_consts
                    (example_results_db\<lparr> simulation_results :=
                       filter (\<lambda>r. n_total r \<noteq> None) (simulation_results example_results_db) \<rparr>)
                    zero_rng ''cfg-1'' (Some 30) None None) = Success s)"
proof -
  from null_totals_are_excluded [OF example_null_results(1), where cs = example_consts
      and g = zero_rng and target_arg = None and nruns = None and risk_profile = None]
    example_null_results(2)
  have e: "summarize example_consts example_null_db zero_rng ''cfg-1'' None None None
        = (Error (''No valid simulation results for '' @ ''cfg-1''), example_null_db, zero_rng)"
    by blast
  from null_totals_are_excluded [OF example_existing_results(2), where cs = example_consts
      and g = zero_rng and target_arg = "Some 30" and nruns = None and risk_profile = None]
    example_kept_results(1)
  have "\<exists>s. fst (summarize example_consts example_results_db zero_rng ''cfg-1'' (Some 30) None None)
              = Success s
          \<and> count (stats s)
              = length (filter (\<lambda>r. n_total r \<noteq> None)
                          (existing_results_of example_results_db ''cfg-1''))
          \<and> fst (summarize example_consts
                    (example_results_db\<lparr> simulation_results :=
                       filter (\<lambda>r. n_total r \<noteq> None) (simulation_results example_results_db) \<rparr>)
                    zero_rng ''cfg-1'' (Some 30) None None) = Success s"
    by blast
  then have k: "\<exists>s. fst (summarize example_consts example_results_db zero_rng ''cfg-1'' (Some 30) None None)
              = Success s
          \<and> count (stats s) = 5
          \<and> fst (summarize example_consts
                    (example_results_db\<lparr> simulation_results :=
                       filter (\<lambda>r. n_total r \<noteq> None) (simulation_results example_results_db) \<rparr>)
                    zero_rng ''cfg-1'' (Some 30) None None) = Success s"
    by (simp only: example_kept_results(2))
  have six: "length (existing_results_of example_results_db ''cfg-1'') = 6"
    by (simp add: existing_results_of_def example_results_db_def)
  from example_null_results e example_existing_results(2) six k show ?thesis
    by (intro conjI)
qed

theorem risk_multiplier_resolution_witness:
  "(1::nat) < length [JNum 3, JNum 4]
   \<and> resolve_multiplier (JList [JNum 3, JNum 4]) 1 = [JNum 3, JNum 4] ! 1
   \<and> length [JNum 3, JNum 4] \<le> (7::nat) \<and> [JNum 3, JNum 4] \<noteq> []
   \<and> resolve_multiplier (JList [JNum 3, JNum 4]) 7 = last [JNum 3, JNum 4]
   \<and> map_of [(''5'', JNum 9)] (str_nat 5) = Some (JNum 9)
   \<and> resolve_multiplier (JDict [(''5'', JNum 9)]) 5 = JNum 9
   \<and> map_of [(''5'', JNum 9)] (str_nat 6) = None
   \<and> map_of [(''5'', JNum 9)] ''default'' = None
   \<and> resolve_multiplier (JDict [(''5'', JNum 9)]) 6 = JNum 1
   \<and> map_of [(''0'', JNum 2), (''default'', JNum 1)] (str_nat 3) = None
   \<and> map_of [(''0'', JNum 2), (''default'', JNum 1)] ''default'' = Some (JNum 1)
   \<and> resolve_multiplier (JDict [(''0'', JNum 2), (''default'', JNum 1)]) 3 = JNum 1
   \<and> resolve_multiplier (JNum 4) 2 = JNum 4
   \<and> apply_risk (Some (JNum 4)) 2 10 = Inr (10 * 4)
   \<and> 0 \<le> i_sigma_r example_inputs \<and> 0 \<le> i_sigma_phi example_inputs
   \<and> 0 \<le> i_eta_r0_var example_inputs \<and> 0 \<le> i_eta_phi0_var example_inputs
   \<and> i_risk_multipliers example_inputs = Some (JDict [(''0'', JNum 2), (''default'', JNum 1)])
   \<and> single_run 120 example_inputs zero_rng =
        (Inr (\<Sum>t<120. spec_N example_inputs (\<lambda>t. if t = 0 then 2 else 1) zero_rng t),
         advance (draws_per_run 120) zero_rng)"
proof -
  have l1: "(1::nat) < length [JNum 3, JNum 4]" by simp
  have l2: "length [JNum 3, JNum 4] \<le> (7::nat) \<and> [JNum 3, JNum 4] \<noteq> []" by simp
  have d1: "map_of [(''5'', JNum 9)] (str_nat 5) = Some (JNum 9)" by simp
  have d2: "map_of [(''5'', JNum 9)] (str_nat 6) = None \<and> map_of [(''5'', JNum 9)] ''default'' = None"
    by simp
  have d3: "map_of [(''0'', JNum 2), (''default'', JNum 1)] (str_nat 3) = None
            \<and> map_of [(''0'', JNum 2), (''default'', JNum 1)] ''default'' = Some (JNum 1)"
    by simp
  have rm: "i_risk_multipliers example_inputs = Some (JDict [(''0'', JNum 2), (''default'', JNum 1)])"
    by (simp add: example_inputs_def example_risk_def)
  from risk_multiplier_resolution [where t = 1 and xs = "[JNum 3, JNum 4]"] l1
  have a: "resolve_multiplier (JList [JNum 3, JNum 4]) 1 = [JNum 3, JNum 4] ! 1"
    by blast
  from risk_multiplier_resolution [where t = 7 and xs = "[JNum 3, JNum 4]"] l2
  have b: "resolve_multiplier (JList [JNum 3, JNum 4]) 7 = last [JNum 3, JNum 4]"
    by blast
  from risk_multiplier_resolution [where t = 5 and d = "[(''5'', JNum 9)]" and v = "JNum 9"] d1
  have c: "resolve_multiplier (JDict [(''5'', JNum 9)]) 5 = JNum 9"
    by blast
  from risk_multiplier_resolution [where t = 6 and d = "[(''5'', JNum 9)]"] d2
  have d: "resolve_multiplier (JDict [(''5'', JNum 9)]) 6 = JNum 1"
    by blast
  from risk_multiplier_resolution [where t = 3 and d = "[(''0'', JNum 2), (''default'', JNum 1)]"
      and v = "JNum 1"] d3
  have e: "resolve_multiplier (JDict [(''0'', JNum 2), (''default'', JNum 1)]) 3 = JNum 1"
    by blast
  from risk_multiplier_resolution [where t = 2 and c = 4 and rm = "JNum 4" and m = 4
      and N_t = 10]
  have f: "resolve_multiplier (JNum 4) 2 = JNum 4"
    and g: "apply_risk (Some (JNum 4)) 2 10 = Inr (10 * 4)"
    by blast+
  from risk_multiplier_resolution [where inp = example_inputs and n = 120 and g = zero_rng]
    example_inputs_nonneg rm
  have h: "single_run 120 example_inputs zero_rng =
        (Inr (\<Sum>t<120. spec_N example_inputs (\<lambda>t. if t = 0 then 2 else 1) zero_rng t),
         advance (draws_per_run 120) zero_rng)"
    by blast
  from l1 l2 d1 d2 d3 rm a b c d e f g h example_inputs_nonneg show ?thesis
    by (intro conjI) (simp_all only: simp_thms)
qed

end
